theory Spec2Isabelle
  imports Main "HOL-Library.Log_Nat"
begin

section \<open>Python values as they come out of \<open>json.load\<close>\<close>

text \<open>
  The converter (\<open>generate_ml_baselines_sql.py\<close>, class \<open>MLBaselinesConverter\<close>) works on
  whatever \<open>json.load\<close> returns: \<open>None\<close>, \<open>bool\<close>, \<open>int\<close> (unbounded), \<open>float\<close>
  (IEEE double), \<open>str\<close>, \<open>list\<close> and \<open>dict\<close> (string keys, insertion ordered).

  A finite double is kept as a sign bit and the exact rational magnitude; the infinities and
  NaN (which \<open>json.load\<close> accepts as \<open>Infinity\<close>, \<open>-Infinity\<close>, \<open>NaN\<close>) are separate.
  A \<open>dict\<close> is an association list in insertion order; \<open>json.load\<close> produces distinct keys.
  A \<open>str\<close> is a \<open>string\<close>; a character outside ASCII stands as its UTF-8 bytes (the output
  file is written in UTF-8).
\<close>

datatype pyfloat = Finite bool rat | Infinity bool | NaN

datatype json =
    JNull
  | JBool bool
  | JInt int
  | JFloat pyfloat
  | JStr string
  | JList "json list"
  | JDict "(string \<times> json) list"

datatype py_error = TypeError | OverflowError

subsection \<open>IEEE double arithmetic (round to nearest, ties to even)\<close>

definition pow2 :: "int \<Rightarrow> rat" where
  "pow2 e = (if 0 \<le> e then 2 ^ nat e else 1 / 2 ^ nat (- e))"

definition pow10 :: "int \<Rightarrow> rat" where
  "pow10 e = (if 0 \<le> e then 10 ^ nat e else 1 / 10 ^ nat (- e))"

text \<open>\<open>ilog2 q\<close> is the \<open>e\<close> with \<open>2^e \<le> q < 2^(e+1)\<close>, for \<open>q > 0\<close>.\<close>

definition ilog2 :: "rat \<Rightarrow> int" where
  "ilog2 q = (case quotient_of q of (n, d) \<Rightarrow>
     (let e = bitlen n - bitlen d in if q < pow2 e then e - 1 else e))"

definition round_half_even :: "rat \<Rightarrow> int" where
  "round_half_even q =
     (let f = \<lfloor>q\<rfloor>; r = q - of_int f
      in if r < 1 / 2 then f
         else if 1 / 2 < r then f + 1
         else if even f then f else f + 1)"

text \<open>
  The nearest double magnitude to a non-negative rational: 53 significant bits, the unit in
  the last place never below \<open>2^-1074\<close>. A result of \<open>2^1024\<close> or more is an overflow, which
  the callers turn into an infinity or an \<open>OverflowError\<close>.
\<close>

definition round_double :: "rat \<Rightarrow> rat" where
  "round_double q =
     (if q = 0 then 0
      else let p = max (ilog2 q - 52) (- 1074)
           in of_int (round_half_even (q / pow2 p)) * pow2 p)"

definition float_mul :: "pyfloat \<Rightarrow> pyfloat \<Rightarrow> pyfloat" where
  "float_mul x y =
     (case (x, y) of
        (NaN, _) \<Rightarrow> NaN
      | (_, NaN) \<Rightarrow> NaN
      | (Infinity s, Infinity t) \<Rightarrow> Infinity (s \<noteq> t)
      | (Infinity s, Finite t b) \<Rightarrow> (if b = 0 then NaN else Infinity (s \<noteq> t))
      | (Finite s a, Infinity t) \<Rightarrow> (if a = 0 then NaN else Infinity (s \<noteq> t))
      | (Finite s a, Finite t b) \<Rightarrow>
          (let m = round_double (a * b)
           in if pow2 1024 \<le> m then Infinity (s \<noteq> t) else Finite (s \<noteq> t) m))"

text \<open>\<open>float(i)\<close> for an \<open>int\<close>: correctly rounded, \<open>OverflowError\<close> beyond the double range.\<close>

definition int_to_float :: "int \<Rightarrow> py_error + pyfloat" where
  "int_to_float i =
     (let m = round_double (of_int \<bar>i\<bar>)
      in if pow2 1024 \<le> m then Inl OverflowError else Inr (Finite (i < 0) m))"

text \<open>A float literal of the source text, such as \<open>1.2\<close>: the double nearest to the decimal.\<close>

definition float_literal :: "rat \<Rightarrow> pyfloat" where
  "float_literal q = Finite (q < 0) (round_double \<bar>q\<bar>)"

subsection \<open>Type tests and truth value\<close>

text \<open>\<open>bool\<close> is a subclass of \<open>int\<close>: \<open>isinstance(True, int)\<close> holds.\<close>

fun isinstance_int :: "json \<Rightarrow> bool" where
  "isinstance_int (JInt _) = True"
| "isinstance_int (JBool _) = True"
| "isinstance_int _ = False"

fun isinstance_float :: "json \<Rightarrow> bool" where
  "isinstance_float (JFloat _) = True"
| "isinstance_float _ = False"

fun isinstance_bool :: "json \<Rightarrow> bool" where
  "isinstance_bool (JBool _) = True"
| "isinstance_bool _ = False"

fun isinstance_list :: "json \<Rightarrow> bool" where
  "isinstance_list (JList _) = True"
| "isinstance_list _ = False"

fun isinstance_dict :: "json \<Rightarrow> bool" where
  "isinstance_dict (JDict _) = True"
| "isinstance_dict _ = False"

fun py_truthy :: "json \<Rightarrow> bool" where
  "py_truthy JNull = False"
| "py_truthy (JBool b) = b"
| "py_truthy (JInt i) = (i \<noteq> 0)"
| "py_truthy (JFloat (Finite s m)) = (m \<noteq> 0)"
| "py_truthy (JFloat _) = True"
| "py_truthy (JStr s) = (s \<noteq> [])"
| "py_truthy (JList xs) = (xs \<noteq> [])"
| "py_truthy (JDict kvs) = (kvs \<noteq> [])"

text \<open>\<open>a or b\<close>.\<close>

definition py_or :: "json \<Rightarrow> json \<Rightarrow> json" where
  "py_or a b = (if py_truthy a then a else b)"

subsection \<open>Dictionary access\<close>

text \<open>\<open>d.get(k, default)\<close>, \<open>d.get(k)\<close> and \<open>k in d\<close>.\<close>

definition get_or :: "(string \<times> json) list \<Rightarrow> string \<Rightarrow> json \<Rightarrow> json" where
  "get_or d k dflt = (case map_of d k of Some v \<Rightarrow> v | None \<Rightarrow> dflt)"

definition get :: "(string \<times> json) list \<Rightarrow> string \<Rightarrow> json" where
  "get d k = get_or d k JNull"

definition has_key :: "(string \<times> json) list \<Rightarrow> string \<Rightarrow> bool" where
  "has_key d k = (map_of d k \<noteq> None)"

subsection \<open>\<open>str\<close> and \<open>repr\<close>\<close>

definition digit_char :: "int \<Rightarrow> char" where
  "digit_char n = char_of (48 + n)"

text \<open>The decimal digits of a non-negative \<open>int\<close>.\<close>

function dec_digits :: "int \<Rightarrow> string" where
  "dec_digits n = (if n < 10 then [digit_char n] else dec_digits (n div 10) @ [digit_char (n mod 10)])"
  by pat_completeness auto
termination
  by (relation "measure nat") auto

declare dec_digits.simps [simp del]

definition str_int :: "int \<Rightarrow> string" where
  "str_int i = (if i < 0 then CHR ''-'' # dec_digits (- i) else dec_digits i)"

text \<open>
  \<open>repr\<close> of a float: the shortest decimal digit string that reads back as the same double
  and, among those, the one nearest to it; printed in positional notation when the decimal
  point falls in \<open>(-4, 16]\<close> and in exponent notation otherwise.
\<close>

text \<open>\<open>ilog10 x\<close> is the \<open>e\<close> with \<open>10^e \<le> x < 10^(e+1)\<close>, for \<open>x > 0\<close> in the double range.\<close>

definition ilog10 :: "rat \<Rightarrow> int" where
  "ilog10 x =
     (let g = (ilog2 x * 30103) div 100000
      in if x < pow10 g then (if x < pow10 (g - 1) then g - 2 else g - 1)
         else if x < pow10 (g + 1) then g else g + 1)"

definition candidate :: "rat \<Rightarrow> int \<Rightarrow> nat \<Rightarrow> int option" where
  "candidate x e10 k =
     (let s = int k - 1 - e10; y = x * pow10 s; lo = \<lfloor>y\<rfloor>; hi = lo + 1;
          lo_ok = (round_double (of_int lo * pow10 (- s)) = x);
          hi_ok = (round_double (of_int hi * pow10 (- s)) = x)
      in if lo_ok \<and> hi_ok then Some (round_half_even y)
         else if lo_ok then Some lo
         else if hi_ok then Some hi
         else None)"

fun shortest :: "rat \<Rightarrow> int \<Rightarrow> nat \<Rightarrow> nat \<Rightarrow> int \<times> nat" where
  "shortest x e10 0 k = (round_half_even (x * pow10 (int k - 1 - e10)), k)"
| "shortest x e10 (Suc fuel) k =
     (case candidate x e10 k of
        Some c \<Rightarrow> (c, k)
      | None \<Rightarrow> shortest x e10 fuel (Suc k))"

definition strip_zeros :: "string \<Rightarrow> string" where
  "strip_zeros ds = rev (dropWhile (\<lambda>c. c = CHR ''0'') (rev ds))"

definition exp_digits :: "int \<Rightarrow> string" where
  "exp_digits e =
     (if e < 0 then ''-'' else ''+'') @
     (if \<bar>e\<bar> < 10 then CHR ''0'' # dec_digits \<bar>e\<bar> else dec_digits \<bar>e\<bar>)"

definition format_digits :: "string \<Rightarrow> int \<Rightarrow> string" where
  "format_digits ds decpt =
     (let n = int (length ds)
      in if decpt \<le> - 4 \<or> 16 < decpt then
           [hd ds] @ (if 1 < n then CHR ''.'' # tl ds else []) @ ''e'' @ exp_digits (decpt - 1)
         else if decpt \<le> 0 then ''0.'' @ replicate (nat (- decpt)) CHR ''0'' @ ds
         else if n \<le> decpt then ds @ replicate (nat (decpt - n)) CHR ''0'' @ ''.0''
         else take (nat decpt) ds @ ''.'' @ drop (nat decpt) ds)"

definition repr_magnitude :: "rat \<Rightarrow> string" where
  "repr_magnitude x =
     (if x = 0 then ''0.0''
      else let e10 = ilog10 x
           in case shortest x e10 16 1 of (c, k) \<Rightarrow>
                (let ds = dec_digits c
                 in format_digits (strip_zeros ds) (e10 + 1 + (int (length ds) - int k))))"

fun repr_float :: "pyfloat \<Rightarrow> string" where
  "repr_float NaN = ''nan''"
| "repr_float (Infinity s) = (if s then ''-inf'' else ''inf'')"
| "repr_float (Finite s m) = (if s then CHR ''-'' # repr_magnitude m else repr_magnitude m)"

text \<open>
  \<open>repr\<close> of a \<open>str\<close>: double quotes only when the text has a single quote and no double
  quote; backslash, the quote, tab, newline, carriage return and the other ASCII control
  characters escaped. A character outside ASCII (here: its UTF-8 bytes) is printed as it is
  when \<open>str.isprintable\<close> holds for it, and escaped by its code point otherwise: \<open>\xhh\<close>
  below 256, \<open>\uhhhh\<close> below 65536, \<open>\Uhhhhhhhh\<close> above. Which characters are printable
  is a table of the interpreter's Unicode database, not of this program: it is the parameter
  \<open>pr\<close>, a predicate on code points, of this function and of every function that prints.
\<close>

definition hex_digit :: "nat \<Rightarrow> char" where
  "hex_digit n = (if n < 10 then char_of (48 + n) else char_of (87 + n))"

fun hex_fixed :: "nat \<Rightarrow> nat \<Rightarrow> string" where
  "hex_fixed 0 n = []"
| "hex_fixed (Suc width) n = hex_fixed width (n div 16) @ [hex_digit (n mod 16)]"

definition escape_code_point :: "nat \<Rightarrow> string" where
  "escape_code_point cp =
     (if cp < 256 then [CHR 0x5C, CHR ''x''] @ hex_fixed 2 cp
      else if cp < 65536 then [CHR 0x5C, CHR ''u''] @ hex_fixed 4 cp
      else [CHR 0x5C, CHR ''U''] @ hex_fixed 8 cp)"

text \<open>The number of bytes that follow the first byte of a UTF-8 character, and its code point.\<close>

definition continuation_count :: "char \<Rightarrow> nat" where
  "continuation_count c =
     (if 240 \<le> (of_char c :: nat) then 3
      else if 224 \<le> (of_char c :: nat) then 2
      else if 192 \<le> (of_char c :: nat) then 1
      else 0)"

fun code_point :: "string \<Rightarrow> nat" where
  "code_point [b0, b1] = (of_char b0 - 192) * 64 + (of_char b1 - 128)"
| "code_point [b0, b1, b2] = (of_char b0 - 224) * 4096 + (of_char b1 - 128) * 64 + (of_char b2 - 128)"
| "code_point [b0, b1, b2, b3] =
     (of_char b0 - 240) * 262144 + (of_char b1 - 128) * 4096 + (of_char b2 - 128) * 64 +
     (of_char b3 - 128)"
| "code_point [b0] = of_char b0"
| "code_point _ = 0"

definition repr_char :: "char \<Rightarrow> char \<Rightarrow> string" where
  "repr_char q c =
     (if c = q \<or> c = CHR 0x5C then [CHR 0x5C, c]
      else if c = CHR 0x09 then [CHR 0x5C, CHR ''t'']
      else if c = CHR 0x0A then [CHR 0x5C, CHR ''n'']
      else if c = CHR 0x0D then [CHR 0x5C, CHR ''r'']
      else if (of_char c :: nat) < 32 \<or> (of_char c :: nat) = 127 then
        [CHR 0x5C, CHR ''x'', hex_digit (of_char c div 16), hex_digit (of_char c mod 16)]
      else [c])"

function repr_chars :: "(nat \<Rightarrow> bool) \<Rightarrow> char \<Rightarrow> string \<Rightarrow> string" where
  "repr_chars pr q [] = []"
| "repr_chars pr q (c # cs) =
     (if (of_char c :: nat) < 128 then repr_char q c @ repr_chars pr q cs
      else let n = continuation_count c; bytes = c # take n cs; cp = code_point bytes
           in (if pr cp then bytes else escape_code_point cp) @ repr_chars pr q (drop n cs))"
  by pat_completeness auto
termination
  by (relation "measure (\<lambda>(pr, q, s). length s)") auto

definition repr_str :: "(nat \<Rightarrow> bool) \<Rightarrow> string \<Rightarrow> string" where
  "repr_str pr s =
     (let q = (if CHR 0x27 \<in> set s \<and> CHR 0x22 \<notin> set s then CHR 0x22 else CHR 0x27)
      in q # repr_chars pr q s @ [q])"

text \<open>\<open>sep.join(xs)\<close>.\<close>

fun join :: "string \<Rightarrow> string list \<Rightarrow> string" where
  "join sep [] = []"
| "join sep [x] = x"
| "join sep (x # y # ys) = x @ sep @ join sep (y # ys)"

fun py_repr :: "(nat \<Rightarrow> bool) \<Rightarrow> json \<Rightarrow> string" where
  "py_repr pr JNull = ''None''"
| "py_repr pr (JBool b) = (if b then ''True'' else ''False'')"
| "py_repr pr (JInt i) = str_int i"
| "py_repr pr (JFloat f) = repr_float f"
| "py_repr pr (JStr s) = repr_str pr s"
| "py_repr pr (JList xs) = ''['' @ join '', '' (map (py_repr pr) xs) @ '']''"
| "py_repr pr (JDict kvs) =
     ''{'' @ join '', '' (map (\<lambda>kv. repr_str pr (fst kv) @ '': '' @ py_repr pr (snd kv)) kvs) @ ''}''"

text \<open>\<open>str(v)\<close>, which is also what an f-string field \<open>{v}\<close> prints.\<close>

fun py_str :: "(nat \<Rightarrow> bool) \<Rightarrow> json \<Rightarrow> string" where
  "py_str pr (JStr s) = s"
| "py_str pr v = py_repr pr v"

section \<open>\<open>escape_sql_string\<close>\<close>

text \<open>\<open>s.replace(old, new)\<close> for a one-character \<open>old\<close>.\<close>

definition replace :: "char \<Rightarrow> string \<Rightarrow> string \<Rightarrow> string" where
  "replace old new s = concat (map (\<lambda>c. if c = old then new else [c]) s)"

text \<open>
  The tests are in the order of the source: \<open>None\<close>, then \<open>isinstance(value, (int, float))\<close>,
  then \<open>isinstance(value, bool)\<close>, then the text escapes.
\<close>

definition escape_sql_string :: "(nat \<Rightarrow> bool) \<Rightarrow> json \<Rightarrow> string" where
  "escape_sql_string pr v =
     (if v = JNull then ''NULL''
      else if isinstance_int v \<or> isinstance_float v then py_str pr v
      else if isinstance_bool v then (if py_truthy v then ''1'' else ''0'')
      else replace (CHR 0x0D) '' ''
             (replace (CHR 0x0A) '' ''
               (replace (CHR 0x22) [CHR 0x22, CHR 0x22]
                 (replace (CHR 0x27) [CHR 0x27, CHR 0x27] (py_str pr v)))))"

section \<open>The converter's state and its fixed texts\<close>

text \<open>
  \<open>self.sql_sections\<close> and \<open>self.section4_header_written\<close>. The fields \<open>file_stats\<close> and
  \<open>total_json_size_mb\<close> only feed the console report and are left out, as are the \<open>print\<close>
  calls.
\<close>

record converter =
  sql_sections :: "string list"
  section4_header_written :: bool

definition append_sections :: "string list \<Rightarrow> converter \<Rightarrow> converter" where
  "append_sections xs c = c\<lparr>sql_sections := sql_sections c @ xs\<rparr>"

definition nl :: string where
  "nl = [CHR 0x0A]"

text \<open>The arrow U+2192 of the banners, in UTF-8.\<close>

definition arrow :: string where
  "arrow = [CHR 0xE2, CHR 0x86, CHR 0x92]"

definition rule_line :: string where
  "rule_line = ''-- ===============================================================''"

definition section1_banner :: string where
  "section1_banner = nl @ rule_line @ nl @ ''-- SECTION 1: BEHAVIORAL ANOMALIES '' @ arrow @ '' customer_anomalies'' @ nl @ rule_line"

definition section2_banner :: string where
  "section2_banner = nl @ rule_line @ nl @ ''-- SECTION 2: CUSTOMER BASELINES '' @ arrow @ '' customer_baselines  '' @ nl @ rule_line"

definition section3_banner :: string where
  "section3_banner = nl @ rule_line @ nl @ ''-- SECTION 3: SEGMENT PERFORMANCE '' @ arrow @ '' segment_performance'' @ nl @ rule_line"

definition section4_banner :: string where
  "section4_banner = nl @ rule_line @ nl @ ''-- SECTION 4: ML BASELINES '' @ arrow @ '' ml_baselines (consolidated)'' @ nl @ rule_line"

definition anomalies_insert :: string where
  "anomalies_insert =
     ''INSERT INTO customer_anomalies (customer_id, customer_segment, value_tier, severity, flags, types) VALUES''"

definition baselines_insert :: string where
  "baselines_insert =
     ''INSERT INTO customer_baselines (customer_id, health_score, frequency_score, monetary_value, recency_days, value_tier, activity_segment, clv_score, customer_health_score, customer_segment) VALUES''"

definition segment_insert :: string where
  "segment_insert =
     ''INSERT INTO segment_performance (segment, channel, region, total_revenue, transaction_count, avg_transaction_value, market_share_pct) VALUES''"

definition ml_insert :: string where
  "ml_insert =
     ''INSERT INTO ml_baselines (dimension, metric_name, baseline_value, threshold_upper, threshold_lower, data_source) VALUES''"

text \<open>An f-string fragment \<open>'{s}'\<close>.\<close>

definition quoted :: "string \<Rightarrow> string" where
  "quoted s = CHR 0x27 # s @ [CHR 0x27]"

text \<open>\<open>range(0, n, step)\<close> and the slices \<open>values[i:i + batch_size]\<close> taken along it.\<close>

definition range_step :: "nat \<Rightarrow> nat \<Rightarrow> nat list" where
  "range_step n step = map (\<lambda>k. k * step) [0 ..< (n + step - 1) div step]"

definition batches :: "nat \<Rightarrow> 'a list \<Rightarrow> 'a list list" where
  "batches batch_size values =
     map (\<lambda>i. take batch_size (drop i values)) (range_step (length values) batch_size)"

text \<open>One statement: the \<open>INSERT\<close> line, then the rows joined by a comma and a newline, then \<open>;\<close>.\<close>

definition statement :: "string \<Rightarrow> string list \<Rightarrow> string list" where
  "statement insert_line rows = [insert_line, join ('','' @ nl) rows @ '';'']"

text \<open>The batching loop of the anomaly and customer-baseline sections, \<open>batch_size = 1000\<close>.\<close>

definition batched_statements :: "string \<Rightarrow> string list \<Rightarrow> string list" where
  "batched_statements insert_line values =
     concat (map (statement insert_line) (batches 1000 values))"

text \<open>
  The loop \<open>for key in possible_keys: if key in data and isinstance(data[key], list): ...; break\<close>,
  starting from the empty list.
\<close>

fun first_list_key :: "(string \<times> json) list \<Rightarrow> string list \<Rightarrow> json list" where
  "first_list_key d [] = []"
| "first_list_key d (key # keys) =
     (case map_of d key of
        Some (JList xs) \<Rightarrow> xs
      | _ \<Rightarrow> first_list_key d keys)"

section \<open>\<open>process_behavioral_anomalies\<close>\<close>

definition anomaly_fields :: "string list" where
  "anomaly_fields = [''customer_id'', ''customerid'', ''severity'', ''changes'']"

text \<open>
  The scan over \<open>data.items()\<close> for the first list whose first element is a dict with one
  of the fields.
\<close>

fun scan_values :: "(string \<times> json) list \<Rightarrow> json list" where
  "scan_values [] = []"
| "scan_values ((key, value) # rest) =
     (case value of
        JList (JDict r # xs) \<Rightarrow>
          (if list_ex (has_key r) anomaly_fields then JDict r # xs else scan_values rest)
      | _ \<Rightarrow> scan_values rest)"

definition anomaly_records :: "json \<Rightarrow> json list" where
  "anomaly_records data =
     (case data of
        JDict d \<Rightarrow>
          (let named = first_list_key d [''customer_anomalies'', ''behavioral_anomalies'', ''anomalies'']
           in if named = [] then scan_values d else named)
      | JList xs \<Rightarrow> xs
      | _ \<Rightarrow> [])"

text \<open>The local variables of the loop body, for a \<open>dict\<close> record and the running count.\<close>

definition anomaly_customer_id :: "(string \<times> json) list \<Rightarrow> nat \<Rightarrow> json" where
  "anomaly_customer_id r record_count =
     py_or (py_or (get r ''customer_id'') (get r ''customerid''))
           (JStr (''UNKNOWN_'' @ str_int (int record_count)))"

definition anomaly_customer_segment :: "(string \<times> json) list \<Rightarrow> json" where
  "anomaly_customer_segment r =
     get_or r ''customer_segment'' (get_or r ''customersegment'' (JStr ''Unknown''))"

definition anomaly_value_tier :: "(string \<times> json) list \<Rightarrow> json" where
  "anomaly_value_tier r = get_or r ''value_tier'' (get_or r ''valuetier'' (JStr ''Unknown''))"

definition anomaly_severity :: "(string \<times> json) list \<Rightarrow> json" where
  "anomaly_severity r =
     py_or (py_or (get r ''severity'') (get r ''anomaly_severity''))
           (get_or r ''riskscore'' (JStr ''Normal''))"

definition anomaly_flags :: "(string \<times> json) list \<Rightarrow> json" where
  "anomaly_flags r =
     py_or (py_or (get r ''flags'') (get r ''anomaly_flags'')) (get_or r ''riskscore'' (JInt 0))"

definition anomaly_types :: "(nat \<Rightarrow> bool) \<Rightarrow> (string \<times> json) list \<Rightarrow> json" where
  "anomaly_types pr r =
     (let types = py_or (py_or (get r ''types'') (get r ''anomaly_types pr''))
                        (get_or r ''changes'' (JStr []))
      in case types of
           JList ts \<Rightarrow> JStr (join '','' (map (py_str pr) ts))
         | _ \<Rightarrow> types)"

definition anomaly_row :: "(nat \<Rightarrow> bool) \<Rightarrow> (string \<times> json) list \<Rightarrow> nat \<Rightarrow> string" where
  "anomaly_row pr r record_count =
     ''('' @ quoted (escape_sql_string pr (anomaly_customer_id r record_count)) @ '', '' @
     quoted (escape_sql_string pr (anomaly_customer_segment r)) @ '', '' @
     quoted (escape_sql_string pr (anomaly_value_tier r)) @ '', '' @
     quoted (escape_sql_string pr (anomaly_severity r)) @ '', '' @
     py_str pr (anomaly_flags r) @ '', '' @
     quoted (escape_sql_string pr (anomaly_types pr r)) @ '')''"

text \<open>The loop over the records: only a \<open>dict\<close> gives a row and advances \<open>record_count\<close>.\<close>

fun anomaly_values :: "(nat \<Rightarrow> bool) \<Rightarrow> json list \<Rightarrow> nat \<Rightarrow> string list" where
  "anomaly_values pr [] record_count = []"
| "anomaly_values pr (JDict r # rest) record_count =
     anomaly_row pr r record_count # anomaly_values pr rest (Suc record_count)"
| "anomaly_values pr (_ # rest) record_count = anomaly_values pr rest record_count"

definition process_behavioral_anomalies :: "(nat \<Rightarrow> bool) \<Rightarrow> converter \<Rightarrow> json \<Rightarrow> converter" where
  "process_behavioral_anomalies pr c data =
     (if \<not> py_truthy data then c
      else let c1 = append_sections [section1_banner] c;
               records = anomaly_records data;
               values = anomaly_values pr records 0
           in if records \<noteq> [] \<and> values \<noteq> []
              then append_sections (batched_statements anomalies_insert values @ [[]]) c1
              else c1)"

section \<open>\<open>process_customer_baselines\<close>\<close>

text \<open>\<open>f'CUST_{i:06d}'\<close>: the index in decimal, padded with zeros to six digits.\<close>

definition pad6 :: "nat \<Rightarrow> string" where
  "pad6 i = (let ds = dec_digits (int i) in replicate (6 - length ds) CHR ''0'' @ ds)"

definition baseline_customer_id :: "(string \<times> json) list \<Rightarrow> nat \<Rightarrow> json" where
  "baseline_customer_id r i =
     py_or (py_or (get r ''customer_id'') (get r ''customerid'')) (JStr (''CUST_'' @ pad6 i))"

definition baseline_health_score :: "(string \<times> json) list \<Rightarrow> json" where
  "baseline_health_score r =
     get_or r ''customer_health_score'' (get_or r ''health_score'' (JFloat (float_literal 50)))"

definition baseline_row :: "(nat \<Rightarrow> bool) \<Rightarrow> (string \<times> json) list \<Rightarrow> nat \<Rightarrow> string" where
  "baseline_row pr r i =
     (let customer_id = baseline_customer_id r i;
          health_score = baseline_health_score r;
          frequency_score = get_or r ''frequency_count'' (get_or r ''frequency_score'' (JInt 0));
          monetary_value =
            get_or r ''monetary_total'' (get_or r ''monetary_value'' (JFloat (float_literal 0)));
          recency_days = get_or r ''recency_days'' (JInt 0);
          value_tier = get_or r ''value_tier'' (JStr ''Medium'');
          activity_segment =
            get_or r ''activity_segment'' (get_or r ''activitysegment'' (JStr ''Unknown''));
          clv_score = get_or r ''clv_score'' (get_or r ''clvscore'' (JFloat (float_literal 0)));
          customer_health_score =
            get_or r ''customer_health_score'' (get_or r ''customerhealthscore'' health_score);
          customer_segment =
            get_or r ''customer_segment'' (get_or r ''customersegment'' (JStr ''Standard''))
      in ''('' @ quoted (escape_sql_string pr customer_id) @ '', '' @
         py_str pr health_score @ '', '' @
         py_str pr frequency_score @ '', '' @
         py_str pr monetary_value @ '', '' @
         py_str pr recency_days @ '', '' @
         quoted (escape_sql_string pr value_tier) @ '', '' @
         quoted (escape_sql_string pr activity_segment) @ '', '' @
         py_str pr clv_score @ '', '' @
         py_str pr customer_health_score @ '', '' @
         quoted (escape_sql_string pr customer_segment) @ '')'')"

text \<open>\<open>for i, record in enumerate(baseline_records)\<close>: the index advances on every record.\<close>

fun baseline_values :: "(nat \<Rightarrow> bool) \<Rightarrow> json list \<Rightarrow> nat \<Rightarrow> string list" where
  "baseline_values pr [] i = []"
| "baseline_values pr (JDict r # rest) i = baseline_row pr r i # baseline_values pr rest (Suc i)"
| "baseline_values pr (_ # rest) i = baseline_values pr rest (Suc i)"

definition baseline_records :: "json \<Rightarrow> json list" where
  "baseline_records data =
     (case data of
        JDict d \<Rightarrow>
          first_list_key d [''customer_intelligence_records'', ''customer_baselines'',
                            ''customers'', ''customerintelligencerecords'']
      | _ \<Rightarrow> [])"

definition process_customer_baselines :: "(nat \<Rightarrow> bool) \<Rightarrow> converter \<Rightarrow> json \<Rightarrow> converter" where
  "process_customer_baselines pr c data =
     (if \<not> py_truthy data then c
      else let c1 = append_sections [section2_banner] c;
               records = baseline_records data;
               values = baseline_values pr records 0
           in if records \<noteq> [] \<and> values \<noteq> []
              then append_sections (batched_statements baselines_insert values @ [[]]) c1
              else c1)"

section \<open>\<open>process_segment_performance\<close>\<close>

definition segment_row :: "(nat \<Rightarrow> bool) \<Rightarrow> (string \<times> json) list \<Rightarrow> string" where
  "segment_row pr r =
     (let segment = get_or r ''customer_segment'' (get_or r ''segment'' (JStr ''Unknown''));
          channel = get_or r ''sales_channel'' (get_or r ''channel'' (JStr ''Unknown''));
          region = get_or r ''region'' (JStr ''Unknown'');
          total_revenue =
            get_or r ''total_amount'' (get_or r ''total_revenue'' (JFloat (float_literal 0)));
          transaction_count = get_or r ''transaction_count'' (get_or r ''count'' (JInt 0));
          avg_transaction_value = get_or r ''avg_transaction_value'' (JFloat (float_literal 0));
          market_share_pct = get_or r ''market_share_pct'' (JFloat (float_literal 0))
      in ''('' @ quoted (escape_sql_string pr segment) @ '', '' @
         quoted (escape_sql_string pr channel) @ '', '' @
         quoted (escape_sql_string pr region) @ '', '' @
         py_str pr total_revenue @ '', '' @
         py_str pr transaction_count @ '', '' @
         py_str pr avg_transaction_value @ '', '' @
         py_str pr market_share_pct @ '')'')"

fun segment_values :: "(nat \<Rightarrow> bool) \<Rightarrow> json list \<Rightarrow> string list" where
  "segment_values pr [] = []"
| "segment_values pr (JDict r # rest) = segment_row pr r # segment_values pr rest"
| "segment_values pr (_ # rest) = segment_values pr rest"

definition segment_data :: "json \<Rightarrow> json list" where
  "segment_data data =
     (case data of
        JDict d \<Rightarrow> first_list_key d [''channel_performance'', ''segment_baselines'', ''segmentbaselines'']
      | _ \<Rightarrow> [])"

text \<open>No batching loop here: all the rows go into one statement.\<close>

definition process_segment_performance :: "(nat \<Rightarrow> bool) \<Rightarrow> converter \<Rightarrow> json \<Rightarrow> converter" where
  "process_segment_performance pr c data =
     (if \<not> py_truthy data then c
      else let c1 = append_sections [section3_banner] c;
               records = segment_data data;
               values = segment_values pr records
           in if records \<noteq> [] \<and> values \<noteq> []
              then append_sections (statement segment_insert values @ [[]]) c1
              else c1)"

section \<open>\<open>process_ml_baselines\<close>\<close>

text \<open>
  \<open>v * c\<close> for a float constant \<open>c\<close>: an \<open>int\<close> or \<open>bool\<close> is converted to a float first
  (\<open>OverflowError\<close> when it is too large), a \<open>str\<close>, \<open>list\<close>, \<open>dict\<close> or \<open>None\<close> raises
  \<open>TypeError\<close>.
\<close>

fun mul_float :: "json \<Rightarrow> pyfloat \<Rightarrow> py_error + json" where
  "mul_float (JFloat f) c = Inr (JFloat (float_mul f c))"
| "mul_float (JInt i) c =
     (case int_to_float i of Inl e \<Rightarrow> Inl e | Inr f \<Rightarrow> Inr (JFloat (float_mul f c)))"
| "mul_float (JBool b) c = Inr (JFloat (float_mul (Finite False (if b then 1 else 0)) c))"
| "mul_float _ c = Inl TypeError"

text \<open>\<open>float(v)\<close> for a value that passed \<open>isinstance(v, (int, float))\<close>.\<close>

fun to_float :: "json \<Rightarrow> py_error + pyfloat" where
  "to_float (JFloat f) = Inr f"
| "to_float (JInt i) = int_to_float i"
| "to_float (JBool b) = Inr (Finite False (if b then 1 else 0))"
| "to_float _ = Inl TypeError"

text \<open>\<open>baseline_value * k if baseline_value else 0\<close>, evaluated as the default argument of
  \<open>get\<close> whether or not the key is there.\<close>

definition scaled_or_zero :: "json \<Rightarrow> pyfloat \<Rightarrow> py_error + json" where
  "scaled_or_zero baseline_value k =
     (if py_truthy baseline_value then mul_float baseline_value k else Inr (JInt 0))"

text \<open>The three numbers of one metric: \<open>(baseline_value, threshold_upper, threshold_lower)\<close>.\<close>

definition metric_numbers :: "json \<Rightarrow> py_error + json \<times> json \<times> json" where
  "metric_numbers metric_data =
     (case metric_data of
        JDict m \<Rightarrow>
          (let baseline_value = get_or m ''baseline'' (get_or m ''mean'' (JFloat (float_literal 0)))
           in case scaled_or_zero baseline_value (float_literal (12 / 10)) of
                Inl e \<Rightarrow> Inl e
              | Inr upper_default \<Rightarrow>
                  (let threshold_upper = get_or m ''upper_threshold'' (get_or m ''max'' upper_default)
                   in case scaled_or_zero baseline_value (float_literal (8 / 10)) of
                        Inl e \<Rightarrow> Inl e
                      | Inr lower_default \<Rightarrow>
                          Inr (baseline_value, threshold_upper,
                               get_or m ''lower_threshold'' (get_or m ''min'' lower_default))))
      | _ \<Rightarrow>
          (case (if isinstance_int metric_data \<or> isinstance_float metric_data
                 then to_float metric_data else Inr (float_literal 0)) of
             Inl e \<Rightarrow> Inl e
           | Inr baseline_value \<Rightarrow>
               Inr (JFloat baseline_value,
                    JFloat (float_mul baseline_value (float_literal (12 / 10))),
                    JFloat (float_mul baseline_value (float_literal (8 / 10))))))"

definition ml_row :: "(nat \<Rightarrow> bool) \<Rightarrow> string \<Rightarrow> string \<Rightarrow> string \<Rightarrow> json \<Rightarrow> py_error + string" where
  "ml_row pr source_name dimension metric_name metric_data =
     (case metric_numbers metric_data of
        Inl e \<Rightarrow> Inl e
      | Inr (baseline_value, threshold_upper, threshold_lower) \<Rightarrow>
          Inr (''('' @ quoted (escape_sql_string pr (JStr dimension)) @ '', '' @
               quoted (escape_sql_string pr (JStr metric_name)) @ '', '' @
               py_str pr baseline_value @ '', '' @
               py_str pr threshold_upper @ '', '' @
               py_str pr threshold_lower @ '', '' @
               quoted (escape_sql_string pr (JStr (source_name @ ''.json''))) @ '')''))"

text \<open>The inner loop over \<open>metrics.items()\<close>; the first exception ends it.\<close>

fun metric_rows :: "(nat \<Rightarrow> bool) \<Rightarrow> string \<Rightarrow> string \<Rightarrow> (string \<times> json) list \<Rightarrow> py_error + string list" where
  "metric_rows pr source_name dimension [] = Inr []"
| "metric_rows pr source_name dimension ((metric_name, metric_data) # rest) =
     (case ml_row pr source_name dimension metric_name metric_data of
        Inl e \<Rightarrow> Inl e
      | Inr row \<Rightarrow>
          (case metric_rows pr source_name dimension rest of
             Inl e \<Rightarrow> Inl e
           | Inr rows \<Rightarrow> Inr (row # rows)))"

text \<open>The outer loop over \<open>data.items()\<close>; a dimension that is not a \<open>dict\<close> is passed over.\<close>

fun dimension_rows :: "(nat \<Rightarrow> bool) \<Rightarrow> string \<Rightarrow> (string \<times> json) list \<Rightarrow> py_error + string list" where
  "dimension_rows pr source_name [] = Inr []"
| "dimension_rows pr source_name ((dimension, metrics) # rest) =
     (case (case metrics of
              JDict ms \<Rightarrow> metric_rows pr source_name dimension ms
            | _ \<Rightarrow> Inr []) of
        Inl e \<Rightarrow> Inl e
      | Inr rows \<Rightarrow>
          (case dimension_rows pr source_name rest of
             Inl e \<Rightarrow> Inl e
           | Inr others \<Rightarrow> Inr (rows @ others)))"

definition ml_values :: "(nat \<Rightarrow> bool) \<Rightarrow> json \<Rightarrow> string \<Rightarrow> py_error + string list" where
  "ml_values pr data source_name =
     (case data of JDict d \<Rightarrow> dimension_rows pr source_name d | _ \<Rightarrow> Inr [])"

definition write_section4_header :: "converter \<Rightarrow> converter" where
  "write_section4_header c =
     (if \<not> section4_header_written c
      then (append_sections [section4_banner] c)\<lparr>section4_header_written := True\<rparr>
      else c)"

text \<open>An exception leaves the function; \<open>Inl\<close> carries it to the caller.\<close>

definition process_ml_baselines :: "(nat \<Rightarrow> bool) \<Rightarrow> converter \<Rightarrow> json \<Rightarrow> string \<Rightarrow> py_error + converter" where
  "process_ml_baselines pr c data source_name =
     (if \<not> py_truthy data then Inr c
      else let c1 = write_section4_header c
           in case ml_values pr data source_name of
                Inl e \<Rightarrow> Inl e
              | Inr values \<Rightarrow>
                  Inr (if values \<noteq> []
                       then append_sections (statement ml_insert values @ [[]]) c1
                       else c1))"

section \<open>\<open>convert_all\<close>\<close>

text \<open>
  What the run finds outside the program: each catalogued file is absent, present but not
  loadable (\<open>json.load\<close> or \<open>open\<close> raise), or present with a parsed value; the output file
  can be written or not. \<open>printable\<close> is the table \<open>str.isprintable\<close> of the interpreter
  that runs the script. \<open>header_text\<close> and \<open>footer_text\<close> stand for the results of
  \<open>generate_header\<close> (a fixed SQL preamble carrying the date and time of the run) and of
  \<open>generate_footer\<close> (a fixed epilogue).
\<close>

datatype file_status = Missing | Unreadable | Parsed json

record environment =
  file_at :: "string \<Rightarrow> file_status"
  printable :: "nat \<Rightarrow> bool"
  writable :: bool
  header_text :: string
  footer_text :: string

definition file_patterns :: "(string \<times> string) list" where
  "file_patterns =
     [(''behavioral_anomalies'', ''behavioral_anomalies.json''),
      (''customer_comprehensive'', ''customer_baseline_comprehensive.json''),
      (''customer_rfm'', ''customer_rfm_analysis.json''),
      (''customer_segments'', ''customer_segment_baselines.json''),
      (''customer_value_tiers'', ''customer_value_tiers.json''),
      (''category_baselines'', ''category_baselines.json''),
      (''product_anomalies'', ''product_anomaly_metrics.json''),
      (''ml_baselines'', ''ml_baseline_metrics.json''),
      (''executive_kpi_dashboard'', ''executive_kpi_dashboard.json''),
      (''executive_insights_summary'', ''executive_insights_summary.json''),
      (''ml_baseline_consolidated'', ''ml_baseline_consolidated.json'')]"

text \<open>The files that exist, in the order of the catalogue.\<close>

definition detect_json_files :: "environment \<Rightarrow> (string \<times> string) list" where
  "detect_json_files env = filter (\<lambda>(key, filename). file_at env filename \<noteq> Missing) file_patterns"

text \<open>Any exception while loading is caught and \<open>None\<close> returned.\<close>

definition load_json_safe :: "environment \<Rightarrow> string \<Rightarrow> json" where
  "load_json_safe env filename = (case file_at env filename of Parsed v \<Rightarrow> v | _ \<Rightarrow> JNull)"

definition processors ::
  "(nat \<Rightarrow> bool) \<Rightarrow> (string \<times> (converter \<Rightarrow> json \<Rightarrow> py_error + converter)) list" where
  "processors pr =
     [(''behavioral_anomalies'', \<lambda>c data. Inr (process_behavioral_anomalies pr c data)),
      (''customer_comprehensive'', \<lambda>c data. Inr (process_customer_baselines pr c data)),
      (''customer_segments'', \<lambda>c data. Inr (process_segment_performance pr c data)),
      (''ml_baselines'', \<lambda>c data. process_ml_baselines pr c data ''ml_baselines''),
      (''category_baselines'', \<lambda>c data. process_ml_baselines pr c data ''category_baselines''),
      (''product_anomalies'', \<lambda>c data. process_ml_baselines pr c data ''product_anomalies''),
      (''executive_kpi_dashboard'', \<lambda>c data. process_ml_baselines pr c data ''executive_kpi_dashboard''),
      (''executive_insights_summary'',
         \<lambda>c data. process_ml_baselines pr c data ''executive_insights_summary''),
      (''ml_baseline_consolidated'',
         \<lambda>c data. process_ml_baselines pr c data ''ml_baseline_consolidated'')]"

text \<open>
  The loop over \<open>json_files.items()\<close>. The call of the processor is not inside any \<open>try\<close>, so
  an exception of a processor ends the loop and the run.
\<close>

fun process_files :: "environment \<Rightarrow> (string \<times> string) list \<Rightarrow> converter \<Rightarrow> py_error + converter" where
  "process_files env [] c = Inr c"
| "process_files env ((file_type, filepath) # rest) c =
     (let data = load_json_safe env filepath
      in case (if py_truthy data then map_of (processors (printable env)) file_type else None) of
           Some processor \<Rightarrow>
             (case processor c data of
                Inl e \<Rightarrow> Inl e
              | Inr c' \<Rightarrow> process_files env rest c')
         | None \<Rightarrow> process_files env rest c)"

text \<open>
  The result is the returned \<open>bool\<close> and the text written to the output file, if any;
  \<open>Inl\<close> is an exception that leaves \<open>convert_all\<close>.
\<close>

definition convert_all :: "environment \<Rightarrow> converter \<Rightarrow> py_error + bool \<times> string option" where
  "convert_all env c =
     (let json_files = detect_json_files env
      in if json_files = [] then Inr (False, None)
         else case process_files env json_files c of
                Inl e \<Rightarrow> Inl e
              | Inr c' \<Rightarrow>
                  (let sql_content = [header_text env] @ sql_sections c' @ [footer_text env]
                   in if writable env then Inr (True, Some (join nl sql_content))
                      else Inr (False, None)))"

text \<open>The converter as \<open>__init__\<close> leaves it.\<close>

definition new_converter :: converter where
  "new_converter = \<lparr>sql_sections = [], section4_header_written = False\<rparr>"

section \<open>The specification's notions\<close>



text \<open>
  A value the heuristic scan accepts: a list whose first element is a mapping containing one
  of the keys \<open>customer_id\<close>, \<open>customerid\<close>, \<open>severity\<close>, \<open>changes\<close>.
\<close>

fun qualifies :: "json \<Rightarrow> bool" where
  "qualifies (JList (JDict r # xs)) =
     list_ex (\<lambda>k. k \<in> fst ` set r) [''customer_id'', ''customerid'', ''severity'', ''changes'']"
| "qualifies _ = False"

text \<open>
  A metric-tree document with nothing to extract: not a mapping, or a mapping none of whose
  values is a mapping with an entry.
\<close>

fun no_metrics :: "json \<Rightarrow> bool" where
  "no_metrics (JDict d) = list_all (\<lambda>kv. case snd kv of JDict ms \<Rightarrow> ms = [] | _ \<Rightarrow> True) d"
| "no_metrics _ = True"


text \<open>
  Documents that match none of the structures an extractor knows. For the anomaly extractor:
  the document is not a sequence and, when it is a mapping, none of the keys
  \<open>customer_anomalies\<close>, \<open>behavioral_anomalies\<close>, \<open>anomalies\<close> holds a list and no value
  passes the heuristic scan. For the customer-baseline and the segment extractor: the
  document is not a mapping in which one of the container keys holds a list.
\<close>

definition holds_list :: "(string \<times> json) list \<Rightarrow> string \<Rightarrow> bool" where
  "holds_list d k = (case map_of d k of Some (JList xs) \<Rightarrow> True | _ \<Rightarrow> False)"

fun unrecognised_anomalies :: "json \<Rightarrow> bool" where
  "unrecognised_anomalies (JDict d) =
     (\<not> list_ex (holds_list d) [''customer_anomalies'', ''behavioral_anomalies'', ''anomalies''] \<and>
      \<not> list_ex qualifies (map snd d))"
| "unrecognised_anomalies (JList xs) = False"
| "unrecognised_anomalies _ = True"

fun unrecognised_baselines :: "json \<Rightarrow> bool" where
  "unrecognised_baselines (JDict d) =
     (\<not> list_ex (holds_list d)
         [''customer_intelligence_records'', ''customer_baselines'', ''customers'',
          ''customerintelligencerecords''])"
| "unrecognised_baselines _ = True"

fun unrecognised_segments :: "json \<Rightarrow> bool" where
  "unrecognised_segments (JDict d) =
     (\<not> list_ex (holds_list d) [''channel_performance'', ''segment_baselines'', ''segmentbaselines''])"
| "unrecognised_segments _ = True"


section \<open>Facts about the shared pieces\<close>

lemma append_sections_twice:
  "append_sections ys (append_sections xs c) = append_sections (xs @ ys) c"
  by (simp add: append_sections_def)

lemma convert_all_cases:
  "convert_all env c =
     (if detect_json_files env = [] then Inr (False, None)
      else case process_files env (detect_json_files env) c of
             Inl e \<Rightarrow> Inl e
           | Inr c' \<Rightarrow>
               if writable env
               then Inr (True, Some (join nl ([header_text env] @ sql_sections c' @ [footer_text env])))
               else Inr (False, None))"
  by (simp add: convert_all_def Let_def split: sum.splits)

subsection \<open>The batching loop\<close>

text \<open>
  The slices of \<open>range(0, len(values), batch_size)\<close> are the list cut into consecutive
  pieces: the first \<open>batch_size\<close> elements, then the batches of the rest.
\<close>

lemma range_count_Suc:
  assumes "0 < b" "0 < n"
  shows "(n + b - 1) div b = Suc ((n - b + b - 1) div b)"
proof -
  obtain k where n: "n = Suc k" using assms by (cases n) auto
  have "(k + b) div b = Suc (k div b)" using assms by simp
  moreover have "(Suc k - b + b - 1) div b = k div b"
  proof (cases "b \<le> Suc k")
    case True
    then show ?thesis by simp
  next
    case False
    then have "k < b" "b - 1 < b" using assms by auto
    then have "k div b = 0" "(b - 1) div b = 0" by (simp_all only: div_less)
    moreover have "Suc k - b = 0" using False by simp
    ultimately show ?thesis by (simp only: add_0 One_nat_def)
  qed
  ultimately show ?thesis by (simp add: n)
qed

lemma range_step_Suc:
  assumes "0 < b" "0 < n"
  shows "range_step n b = 0 # map (\<lambda>i. i + b) (range_step (n - b) b)"
  unfolding range_step_def range_count_Suc [OF assms]
  by (simp add: upt_conv_Cons map_Suc_upt [symmetric] comp_def del: upt_Suc)

lemma batches_Nil: "batches b [] = []"
  by (cases b) (simp_all add: batches_def range_step_def)

lemma batches_unfold:
  assumes "0 < b" "xs \<noteq> []"
  shows "batches b xs = take b xs # batches b (drop b xs)"
  using assms
  by (simp add: batches_def range_step_Suc [of b "length xs"] comp_def add.commute)

lemma concat_batches:
  assumes "0 < b"
  shows "concat (batches b xs) = xs"
proof (induction "length xs" arbitrary: xs rule: less_induct)
  case less
  show ?case
  proof (cases "xs = []")
    case True
    then show ?thesis by (simp add: batches_Nil)
  next
    case False
    then have "length (drop b xs) < length xs" using assms by simp
    then have "concat (batches b (drop b xs)) = drop b xs" by (rule less)
    then show ?thesis by (simp add: batches_unfold [OF assms False])
  qed
qed

lemma batches_bounded:
  assumes "0 < b"
  shows "list_all (\<lambda>ys. ys \<noteq> [] \<and> length ys \<le> b) (batches b xs)"
proof (induction "length xs" arbitrary: xs rule: less_induct)
  case less
  show ?case
  proof (cases "xs = []")
    case True
    then show ?thesis by (simp add: batches_Nil)
  next
    case False
    then have "length (drop b xs) < length xs" using assms by simp
    then have "list_all (\<lambda>ys. ys \<noteq> [] \<and> length ys \<le> b) (batches b (drop b xs))" by (rule less)
    then show ?thesis using assms False by (simp add: batches_unfold [OF assms False])
  qed
qed

lemma length_batches: "length (batches b xs) = (length xs + b - 1) div b"
  by (simp add: batches_def range_step_def)

lemma length_batched_statements:
  "length (batched_statements ins values) = 2 * ((length values + 999) div 1000)"
  by (simp add: batched_statements_def statement_def length_concat comp_def length_batches
      sum_list_triv add.commute)


text \<open>
  So the loop of the anomaly and customer-baseline sections emits one statement for every
  started thousand of rows, each holding at most 1000 of them, in order.
\<close>

subsection \<open>Double arithmetic\<close>

text \<open>\<open>ilog2\<close> is the binary logarithm rounded down.\<close>

lemma pow2_powi: "pow2 e = 2 powi e"
  by (simp add: pow2_def power_int_def power_one_over inverse_eq_divide)

lemma pow2_pos: "0 < pow2 e"
  by (simp add: pow2_def)

lemma pow2_add: "pow2 (a + b) = pow2 a * pow2 b"
  unfolding pow2_powi by (rule power_int_add) simp

lemma pow2_nat: "0 \<le> e \<Longrightarrow> pow2 e = 2 ^ nat e"
  by (simp add: pow2_def)

lemma pow2_of_int: "0 \<le> e \<Longrightarrow> pow2 e = of_int (2 ^ nat e)"
  by (simp add: pow2_def)

lemma ilog2_bounds:
  assumes "0 < q"
  shows "pow2 (ilog2 q) \<le> q \<and> q < pow2 (ilog2 q + 1)"
proof -
  obtain n d where nd: "quotient_of q = (n, d)" by (cases "quotient_of q")
  then have d: "0 < d" and q: "q = of_int n / of_int d"
    using quotient_of_denom_pos quotient_of_div by auto
  with assms have n: "0 < n" by (simp add: zero_less_divide_iff)
  define bn bd where "bn = bitlen n" and "bd = bitlen d"
  have bn: "2 ^ nat (bn - 1) \<le> n" "n < 2 ^ nat bn" and bd: "2 ^ nat (bd - 1) \<le> d" "d < 2 ^ nat bd"
    using bitlen_bounds [OF n] bitlen_bounds [OF d] by (simp_all add: bn_def bd_def)
  have pos: "1 \<le> bn" "1 \<le> bd"
    using bn(2) bd(2) n d by (auto simp: not_less [symmetric] intro: ccontr)
  have rn1: "pow2 (bn - 1) \<le> of_int n"
    using bn(1) pos unfolding pow2_of_int [of "bn - 1", OF diff_ge_0_iff_ge [THEN iffD2, OF pos(1)]]
    by (simp only: of_int_le_iff)
  have rn2: "(of_int n :: rat) < pow2 bn"
    using bn(2) pos unfolding pow2_of_int [of bn, OF order_trans [OF zero_le_one pos(1)]]
    by (simp only: of_int_less_iff)
  have rd1: "pow2 (bd - 1) \<le> of_int d"
    using bd(1) pos unfolding pow2_of_int [of "bd - 1", OF diff_ge_0_iff_ge [THEN iffD2, OF pos(2)]]
    by (simp only: of_int_le_iff)
  have rd2: "(of_int d :: rat) < pow2 bd"
    using bd(2) pos unfolding pow2_of_int [of bd, OF order_trans [OF zero_le_one pos(2)]]
    by (simp only: of_int_less_iff)
  have nr: "(0 :: rat) < of_int n" and dr: "(0 :: rat) < of_int d" using n d by simp_all
  have up: "q < pow2 (bn - bd + 1)"
  proof -
    have "of_int n / of_int d < pow2 bn / pow2 (bd - 1)"
      by (rule frac_less) (use rn2 rd1 nr pow2_pos [of "bd - 1"] in simp_all)
    moreover have "pow2 bn = pow2 (bn - bd + 1) * pow2 (bd - 1)"
      using pow2_add [of "bn - bd + 1" "bd - 1"] by simp
    ultimately show ?thesis using pow2_pos [of "bd - 1"] by (simp add: q)
  qed
  have lo: "pow2 (bn - bd - 1) \<le> q"
  proof -
    have "pow2 (bn - 1) / pow2 bd \<le> of_int n / of_int d"
      by (rule frac_le) (use rn1 rd2 nr dr pow2_pos [of "bn - 1"] in simp_all)
    moreover have "pow2 (bn - 1) = pow2 (bn - bd - 1) * pow2 bd"
      using pow2_add [of "bn - bd - 1" "bd"] by simp
    ultimately show ?thesis using pow2_pos [of bd] by (simp add: q)
  qed
  have e: "ilog2 q = (if q < pow2 (bn - bd) then bn - bd - 1 else bn - bd)"
    by (simp add: ilog2_def nd bn_def bd_def Let_def)
  show ?thesis
  proof (cases "q < pow2 (bn - bd)")
    case True
    then show ?thesis using lo by (simp add: e)
  next
    case False
    then show ?thesis using up by (simp add: e not_less)
  qed
qed


lemma pow2_mono: "a \<le> b \<Longrightarrow> pow2 a \<le> pow2 b"
  unfolding pow2_powi by (rule power_int_increasing) simp_all

lemma round_half_even_of_int: "round_half_even (of_int m) = m"
  by (simp add: round_half_even_def)

text \<open>An integer of at most 53 bits is a double: rounding leaves it as it is.\<close>

lemma round_double_exact_int:
  assumes "0 < n" and "n \<le> 2 ^ 53"
  shows "round_double (of_int n) = of_int n"
proof -
  define q :: rat where "q = of_int n"
  define e where "e = ilog2 q"
  have q: "1 \<le> q" "q \<le> pow2 53" "0 < q"
    using assms by (simp_all add: q_def pow2_def of_int_le_iff [of n "2 ^ 53", where ?'a = rat, simplified])
  from ilog2_bounds [OF q(3)] have b: "pow2 e \<le> q" "q < pow2 (e + 1)" by (simp_all add: e_def)
  have e0: "0 \<le> e"
  proof (rule ccontr)
    assume "\<not> 0 \<le> e"
    then have "pow2 (e + 1) \<le> pow2 0" by (intro pow2_mono) simp
    with b(2) q(1) show False by (simp add: pow2_def)
  qed
  have e53: "e \<le> 53"
  proof (rule ccontr)
    assume "\<not> e \<le> 53"
    then have "pow2 (53 + 1) \<le> pow2 e" by (intro pow2_mono) simp
    moreover have "pow2 53 < pow2 (53 + 1)" by (simp add: pow2_def)
    ultimately show False using b(1) q(2) by simp
  qed
  have p: "max (e - 52) (- 1074) = e - 52" using e0 by simp
  have "q / pow2 (e - 52) = of_int (n * 2 ^ nat (52 - e)) \<or> (e = 53 \<and> q = pow2 53)"
  proof (cases "e \<le> 52")
    case True
    have "pow2 (e - 52) * pow2 (52 - e) = 1"
      using pow2_add [of "e - 52" "52 - e"] by (simp add: pow2_def)
    then have "q / pow2 (e - 52) = q * pow2 (52 - e)"
      using pow2_pos [of "e - 52"] by (simp add: field_simps)
    also have "\<dots> = of_int (n * 2 ^ nat (52 - e))"
      using True by (simp add: q_def pow2_of_int)
    finally show ?thesis by simp
  next
    case False
    with e53 have "e = 53" by simp
    with b(1) q(2) show ?thesis by simp
  qed
  then have "of_int (round_half_even (q / pow2 (e - 52))) * pow2 (e - 52) = q"
  proof
    assume a: "q / pow2 (e - 52) = of_int (n * 2 ^ nat (52 - e))"
    then have "of_int (round_half_even (q / pow2 (e - 52))) = q / pow2 (e - 52)"
      by (simp only: round_half_even_of_int)
    then show ?thesis using pow2_pos [of "e - 52"] by simp
  next
    assume a: "e = 53 \<and> q = pow2 53"
    then have "q / pow2 (e - 52) = of_int (2 ^ 52)" by (simp add: pow2_def)
    then have "of_int (round_half_even (q / pow2 (e - 52))) = q / pow2 (e - 52)"
      by (simp only: round_half_even_of_int)
    then show ?thesis using pow2_pos [of "e - 52"] by simp
  qed
  then show ?thesis
    using q(3) by (simp add: round_double_def e_def [symmetric] q_def [symmetric] p Let_def)
qed

lemma int_to_float_exact:
  assumes "\<bar>i\<bar> \<le> 2 ^ 53"
  shows "int_to_float i = Inr (Finite (i < 0) (of_int \<bar>i\<bar>))"
proof (cases "i = 0")
  case True
  then show ?thesis by (simp add: int_to_float_def round_double_def pow2_def)
next
  case False
  then have "0 < \<bar>i\<bar>" by simp
  from round_double_exact_int [OF this assms]
  have r: "round_double (of_int \<bar>i\<bar>) = of_int \<bar>i\<bar>" .
  have "(of_int \<bar>i\<bar> :: rat) \<le> of_int (2 ^ 53)" using assms by (simp only: of_int_le_iff)
  also have "\<dots> < pow2 1024" by (simp add: pow2_def)
  finally have "\<not> pow2 1024 \<le> (of_int \<bar>i\<bar> :: rat)" by simp
  then show ?thesis unfolding int_to_float_def r Let_def by simp
qed

section \<open>The value sanitizer on numbers, booleans and \<open>None\<close>\<close>

text \<open>
  C2. The claim: \<open>escape_sql_string\<close> maps \<open>True\<close> to \<open>1\<close> and \<open>False\<close> to \<open>0\<close>, \<open>None\<close> to
  \<open>NULL\<close> and a number to its decimal text. The code does the last two, but a \<open>bool\<close> is an
  \<open>int\<close> for \<open>isinstance\<close>, so the test for numbers, which comes first, takes the booleans:
  they come out as \<open>True\<close> and \<open>False\<close>, and the branch written for them is never reached.
\<close>

theorem escape_sql_string_bool:
  "escape_sql_string pr (JBool True) = ''True'' \<and>
   escape_sql_string pr (JBool False) = ''False'' \<and>
   escape_sql_string pr JNull = ''NULL'' \<and>
   escape_sql_string pr (JInt i) = str_int i \<and>
   escape_sql_string pr (JFloat f) = repr_float f"
  by (simp add: escape_sql_string_def)

section \<open>Which sections batch their rows\<close>

lemma segment_values_replicate:
  "segment_values pr (replicate n (JDict r)) = replicate n (segment_row pr r)"
  by (induction n) simp_all

lemma segment_single_statement:
  assumes "0 < n"
  shows "process_segment_performance pr c (JDict [(''segment_baselines'', JList (replicate n (JDict r)))]) =
         append_sections
           ([section3_banner] @ statement segment_insert (replicate n (segment_row pr r)) @ [[]]) c"
  using assms
  by (simp add: process_segment_performance_def segment_data_def segment_values_replicate
      append_sections_twice Let_def)

lemma int_to_float_1: "int_to_float 1 = Inr (Finite False 1)"
  by code_simp

lemma ml_row_int_1: "\<exists>row. ml_row pr source_name dimension metric_name (JInt 1) = Inr row"
  by (simp add: ml_row_def metric_numbers_def int_to_float_1)

lemma metric_rows_ints:
  "\<exists>rows. length rows = length names \<and>
     metric_rows pr source_name dimension (map (\<lambda>n. (n, JInt 1)) names) = Inr rows"
proof (induction names)
  case Nil
  show ?case by simp
next
  case (Cons n names)
  then obtain rows where rows: "length rows = length names"
    "metric_rows pr source_name dimension (map (\<lambda>n. (n, JInt 1)) names) = Inr rows" by blast
  obtain row where row: "ml_row pr source_name dimension n (JInt 1) = Inr row"
    using ml_row_int_1 by blast
  have "length (row # rows) = length (n # names)" using rows by simp
  moreover have "metric_rows pr source_name dimension (map (\<lambda>n. (n, JInt 1)) (n # names)) = Inr (row # rows)"
    using rows row by simp
  ultimately show ?case by blast
qed

lemma ml_single_statement:
  assumes "names \<noteq> []"
  shows "\<exists>rows. length rows = length names \<and>
           process_ml_baselines pr c (JDict [(dimension, JDict (map (\<lambda>n. (n, JInt 1)) names))]) source_name =
           Inr (append_sections (statement ml_insert rows @ [[]]) (write_section4_header c))"
proof -
  obtain rows where rows: "length rows = length names"
    "metric_rows pr source_name dimension (map (\<lambda>n. (n, JInt 1)) names) = Inr rows"
    using metric_rows_ints by blast
  then have "rows \<noteq> []" using assms by auto
  then have "process_ml_baselines pr c (JDict [(dimension, JDict (map (\<lambda>n. (n, JInt 1)) names))]) source_name =
           Inr (append_sections (statement ml_insert rows @ [[]]) (write_section4_header c))"
    using rows by (simp add: process_ml_baselines_def ml_values_def)
  then show ?thesis using rows by blast
qed

lemma length_anomaly_values_replicate:
  "length (anomaly_values pr (replicate n (JDict r)) k) = n"
  by (induction n arbitrary: k) simp_all

lemma batches_1001:
  assumes "length xs = 1001"
  shows "batches 1000 xs = [take 1000 xs, drop 1000 xs]"
proof -
  have a: "xs \<noteq> []" "drop 1000 xs \<noteq> []" "drop 1000 (drop 1000 xs) = []" using assms by auto
  have b: "take 1000 (drop 1000 xs) = drop 1000 xs" using assms by simp
  have "batches 1000 xs = take 1000 xs # batches 1000 (drop 1000 xs)"
    by (rule batches_unfold) (simp_all add: a)
  also have "batches 1000 (drop 1000 xs) = take 1000 (drop 1000 xs) # batches 1000 (drop 1000 (drop 1000 xs))"
    by (rule batches_unfold) (use a in simp_all)
  finally show ?thesis by (simp only: a b batches_Nil)
qed

lemma batches_upto_1000:
  assumes "xs \<noteq> []" "length xs \<le> 1000"
  shows "batches 1000 xs = [xs]"
proof -
  have "batches 1000 xs = take 1000 xs # batches 1000 (drop 1000 xs)"
    by (rule batches_unfold) (simp_all add: assms)
  then show ?thesis using assms by (simp add: batches_Nil)
qed

lemma anomalies_two_statements:
  "\<exists>rows1 rows2. length rows1 = 1000 \<and> length rows2 = 1 \<and>
     process_behavioral_anomalies pr c (JList (replicate 1001 (JDict r))) =
     append_sections ([section1_banner, anomalies_insert, join ('','' @ nl) rows1 @ '';'',
                       anomalies_insert, join ('','' @ nl) rows2 @ '';'', []]) c"
proof -
  define vs where "vs = anomaly_values pr (replicate 1001 (JDict r)) 0"
  have len: "length vs = 1001" by (simp add: vs_def length_anomaly_values_replicate)
  then have ne: "vs \<noteq> []" by auto
  have "process_behavioral_anomalies pr c (JList (replicate 1001 (JDict r))) =
        append_sections ([section1_banner] @ batched_statements anomalies_insert vs @ [[]]) c"
    using ne by (simp add: process_behavioral_anomalies_def anomaly_records_def vs_def [symmetric]
        append_sections_twice Let_def)
  moreover have "batched_statements anomalies_insert vs =
     [anomalies_insert, join ('','' @ nl) (take 1000 vs) @ '';'',
      anomalies_insert, join ('','' @ nl) (drop 1000 vs) @ '';'']"
    by (simp add: batched_statements_def batches_1001 [OF len] statement_def)
  moreover have "length (take 1000 vs) = 1000" "length (drop 1000 vs) = 1" using len by simp_all
  ultimately have "length (take 1000 vs) = 1000 \<and> length (drop 1000 vs) = 1 \<and>
     process_behavioral_anomalies pr c (JList (replicate 1001 (JDict r))) =
     append_sections ([section1_banner, anomalies_insert, join ('','' @ nl) (take 1000 vs) @ '';'',
                       anomalies_insert, join ('','' @ nl) (drop 1000 vs) @ '';'', []]) c"
    by simp
  then show ?thesis by blast
qed

text \<open>
  C1. The claim: for every section the rows are split into groups of at most 1000, one
  \<open>INSERT\<close> statement per group, so that 1001 records give two statements for each of the
  four tables. The anomaly section does so (and the customer-baseline section runs the same
  loop), but \<open>process_segment_performance\<close> and \<open>process_ml_baselines\<close> have no batching
  loop: 1001 rows go into one statement.
\<close>

theorem single_statement_1001:
  "(\<exists>rows. length rows = 1001 \<and>
      process_segment_performance pr new_converter
        (JDict [(''segment_baselines'', JList (replicate 1001 (JDict [])))]) =
      \<lparr>sql_sections = [section3_banner, segment_insert, join ('','' @ nl) rows @ '';'', []],
       section4_header_written = False\<rparr>) \<and>
   (\<exists>rows. length rows = 1001 \<and>
      process_ml_baselines pr new_converter
        (JDict [(''sales'', JDict (map (\<lambda>i. (''m'' @ str_int (int i), JInt 1)) [0..<1001]))])
        ''ml_baselines'' =
      Inr \<lparr>sql_sections = [section4_banner, ml_insert, join ('','' @ nl) rows @ '';'', []],
           section4_header_written = True\<rparr>) \<and>
   (\<exists>rows1 rows2. length rows1 = 1000 \<and> length rows2 = 1 \<and>
      process_behavioral_anomalies pr new_converter (JList (replicate 1001 (JDict []))) =
      \<lparr>sql_sections = [section1_banner, anomalies_insert, join ('','' @ nl) rows1 @ '';'',
                       anomalies_insert, join ('','' @ nl) rows2 @ '';'', []],
       section4_header_written = False\<rparr>)"
proof (intro conjI)
  have "process_segment_performance pr new_converter
        (JDict [(''segment_baselines'', JList (replicate 1001 (JDict [])))]) =
      \<lparr>sql_sections = [section3_banner, segment_insert,
         join ('','' @ nl) (replicate 1001 (segment_row pr [])) @ '';'', []],
       section4_header_written = False\<rparr>"
    by (simp add: segment_single_statement new_converter_def append_sections_def statement_def)
  then show "\<exists>rows. length rows = 1001 \<and>
      process_segment_performance pr new_converter
        (JDict [(''segment_baselines'', JList (replicate 1001 (JDict [])))]) =
      \<lparr>sql_sections = [section3_banner, segment_insert, join ('','' @ nl) rows @ '';'', []],
       section4_header_written = False\<rparr>"
    using length_replicate [of 1001 "segment_row pr []"] by blast
next
  define names where "names = map (\<lambda>i. ''m'' @ str_int (int i)) [0..<1001]"
  have len: "length names = 1001" unfolding names_def by (simp only: length_map length_upt)
  then have ne: "names \<noteq> []" by auto
  have doc: "map (\<lambda>i. (''m'' @ str_int (int i), JInt 1)) [0..<1001] = map (\<lambda>n. (n, JInt 1)) names"
    unfolding names_def by (simp only: map_map comp_def)
  obtain rows where rows: "length rows = length names"
    "process_ml_baselines pr new_converter (JDict [(''sales'', JDict (map (\<lambda>n. (n, JInt 1)) names))]) ''ml_baselines'' =
       Inr (append_sections (statement ml_insert rows @ [[]]) (write_section4_header new_converter))"
    using ml_single_statement [OF ne] by blast
  have "append_sections (statement ml_insert rows @ [[]]) (write_section4_header new_converter) =
      \<lparr>sql_sections = [section4_banner, ml_insert, join ('','' @ nl) rows @ '';'', []],
           section4_header_written = True\<rparr>"
    by (simp add: write_section4_header_def new_converter_def append_sections_def statement_def)
  then show "\<exists>rows. length rows = 1001 \<and>
      process_ml_baselines pr new_converter
        (JDict [(''sales'', JDict (map (\<lambda>i. (''m'' @ str_int (int i), JInt 1)) [0..<1001]))])
        ''ml_baselines'' =
      Inr \<lparr>sql_sections = [section4_banner, ml_insert, join ('','' @ nl) rows @ '';'', []],
           section4_header_written = True\<rparr>"
    using rows len unfolding doc by (metis (no_types))
next
  show "\<exists>rows1 rows2. length rows1 = 1000 \<and> length rows2 = 1 \<and>
      process_behavioral_anomalies pr new_converter (JList (replicate 1001 (JDict []))) =
      \<lparr>sql_sections = [section1_banner, anomalies_insert, join ('','' @ nl) rows1 @ '';'',
                       anomalies_insert, join ('','' @ nl) rows2 @ '';'', []],
       section4_header_written = False\<rparr>"
    using anomalies_two_statements [of pr new_converter "[]"]
    by (simp add: new_converter_def append_sections_def)
qed

section \<open>Exceptions inside an extractor\<close>

text \<open>
  The documents the three list-based extractors take never make them raise (they are total
  functions of the model). \<open>process_ml_baselines\<close> multiplies the baseline by \<open>1.2\<close> and
  \<open>0.8\<close> without looking at its type, and a text baseline makes that a \<open>TypeError\<close>.
\<close>

lemma string_baseline_raises:
  "metric_numbers (JDict [(''baseline'', JStr (c # s))]) = Inl TypeError"
  by (simp add: metric_numbers_def get_or_def scaled_or_zero_def)

text \<open>
  C3. The claim: an error inside one file's extractor is contained in that file's step, the
  later files are still processed and no exception leaves the conversion, also for a metric
  tree whose baseline is a string. The code calls the processor outside any \<open>try\<close>: with
  \<open>{"sales": {"revenue": {"baseline": "high"}}}\<close> in \<open>ml_baseline_metrics.json\<close> the
  \<open>TypeError\<close> leaves \<open>process_ml_baselines\<close> and \<open>convert_all\<close>, and the file
  \<open>executive_kpi_dashboard.json\<close> after it is never processed.
\<close>

theorem string_baseline_escapes:
  "process_ml_baselines pr c
     (JDict [(''sales'', JDict [(''revenue'', JDict [(''baseline'', JStr ''high'')])])]) source_name =
     Inl TypeError \<and>
   convert_all
     \<lparr>file_at = (\<lambda>f. if f = ''ml_baseline_metrics.json''
                     then Parsed (JDict [(''sales'', JDict [(''revenue'', JDict [(''baseline'', JStr ''high'')])])])
                     else if f = ''executive_kpi_dashboard.json''
                     then Parsed (JDict [(''kpi'', JDict [(''revenue'', JInt 5)])])
                     else Missing),
      printable = pr, writable = w, header_text = h, footer_text = t\<rparr> c = Inl TypeError"
  by (simp add: convert_all_def detect_json_files_def file_patterns_def load_json_safe_def
      processors_def process_ml_baselines_def ml_values_def ml_row_def metric_numbers_def
      get_or_def scaled_or_zero_def)

section \<open>Field resolution in the anomaly extractor\<close>







section \<open>Synthesized thresholds\<close>


text \<open>\<open>float\<close> succeeds on every float and boolean and on every integer of at most 53 bits.\<close>

lemma to_float_number:
  "to_float (JFloat x) = Inr x \<and>
   to_float (JBool t) = Inr (Finite False (if t then 1 else 0)) \<and>
   (\<bar>i\<bar> \<le> 2 ^ 53 \<longrightarrow> to_float (JInt i) = Inr (Finite (i < 0) (of_int \<bar>i\<bar>)))"
  by (simp add: int_to_float_exact)

















section \<open>The heuristic scan of the anomaly extractor\<close>

lemma has_key_iff: "has_key r k = (k \<in> fst ` set r)"
  by (simp add: has_key_def map_of_eq_None_iff)

lemma scan_values_step:
  "scan_values ((key, v) # d) =
     (if qualifies v then (case v of JList xs \<Rightarrow> xs | _ \<Rightarrow> []) else scan_values d)"
  by (cases v rule: qualifies.cases) (simp_all add: anomaly_fields_def has_key_iff)

lemma scan_values_find:
  "scan_values d = (case find qualifies (map snd d) of Some (JList xs) \<Rightarrow> xs | _ \<Rightarrow> [])"
proof (induction d)
  case Nil
  show ?case by simp
next
  case (Cons kv d)
  obtain key v where kv: "kv = (key, v)" by (cases kv)
  show ?case
    unfolding kv scan_values_step using Cons
    by (cases v rule: qualifies.cases) (simp_all del: scan_values.simps)
qed

lemma first_list_key_no_list:
  "list_all (\<lambda>k. \<not> isinstance_list (get d k)) keys \<Longrightarrow> first_list_key d keys = []"
  by (induction keys) (auto simp: get_def get_or_def split: option.splits json.splits)

text \<open>
  C6. When none of \<open>customer_anomalies\<close>, \<open>behavioral_anomalies\<close>, \<open>anomalies\<close> holds a list,
  the records are the first value of the mapping, in its order, that is a list whose first
  element is a mapping with one of the keys \<open>customer_id\<close>, \<open>customerid\<close>, \<open>severity\<close>,
  \<open>changes\<close>; none if there is no such value. The document
  \<open>{"foo": [{"customer_id": "C2", "severity": "High"}]}\<close> gives the one row
  \<open>('C2', 'Unknown', 'Unknown', 'High', 0, '')\<close>.
\<close>

theorem heuristic_scan:
  "(\<not> isinstance_list (get d ''customer_anomalies'') \<and>
    \<not> isinstance_list (get d ''behavioral_anomalies'') \<and>
    \<not> isinstance_list (get d ''anomalies'') \<longrightarrow>
      anomaly_records (JDict d) =
        (case find qualifies (map snd d) of Some (JList xs) \<Rightarrow> xs | _ \<Rightarrow> [])) \<and>
   process_behavioral_anomalies pr new_converter
     (JDict [(''foo'', JList [JDict [(''customer_id'', JStr ''C2''), (''severity'', JStr ''High'')]])]) =
     \<lparr>sql_sections =
        [section1_banner, anomalies_insert,
         ''('' @ quoted ''C2'' @ '', '' @ quoted ''Unknown'' @ '', '' @ quoted ''Unknown'' @ '', '' @
           quoted ''High'' @ '', 0, '' @ quoted [] @ '');'',
         []],
      section4_header_written = False\<rparr>"
proof (intro conjI impI)
  assume "\<not> isinstance_list (get d ''customer_anomalies'') \<and>
    \<not> isinstance_list (get d ''behavioral_anomalies'') \<and>
    \<not> isinstance_list (get d ''anomalies'')"
  then have "first_list_key d [''customer_anomalies'', ''behavioral_anomalies'', ''anomalies''] = []"
    by (intro first_list_key_no_list) simp
  then show "anomaly_records (JDict d) =
        (case find qualifies (map snd d) of Some (JList xs) \<Rightarrow> xs | _ \<Rightarrow> [])"
    by (simp add: anomaly_records_def scan_values_find)
next
  show "process_behavioral_anomalies pr new_converter
     (JDict [(''foo'', JList [JDict [(''customer_id'', JStr ''C2''), (''severity'', JStr ''High'')]])]) =
     \<lparr>sql_sections =
        [section1_banner, anomalies_insert,
         ''('' @ quoted ''C2'' @ '', '' @ quoted ''Unknown'' @ '', '' @ quoted ''Unknown'' @ '', '' @
           quoted ''High'' @ '', 0, '' @ quoted [] @ '');'',
         []],
      section4_header_written = False\<rparr>"
    by code_simp
qed

theorem heuristic_scan_witness:
  "anomaly_records
     (JDict [(''foo'', JList [JDict [(''customer_id'', JStr ''C2''), (''severity'', JStr ''High'')]])]) =
     [JDict [(''customer_id'', JStr ''C2''), (''severity'', JStr ''High'')]]"
  using heuristic_scan [of "[(''foo'', JList [JDict [(''customer_id'', JStr ''C2''), (''severity'', JStr ''High'')]])]"]
  by (simp add: get_def get_or_def)

section \<open>Documents with nothing to extract\<close>

lemma anomaly_values_no_dict:
  "\<not> list_ex isinstance_dict records \<Longrightarrow> anomaly_values pr records k = []"
  by (induction pr records k rule: anomaly_values.induct) simp_all

lemma baseline_values_no_dict:
  "\<not> list_ex isinstance_dict records \<Longrightarrow> baseline_values pr records i = []"
  by (induction pr records i rule: baseline_values.induct) simp_all

lemma segment_values_no_dict:
  "\<not> list_ex isinstance_dict records \<Longrightarrow> segment_values pr records = []"
  by (induction pr records rule: segment_values.induct) simp_all

lemma dimension_rows_no_metrics:
  "no_metrics (JDict d) \<Longrightarrow> dimension_rows pr source_name d = Inr []"
proof (induction d)
  case Nil
  show ?case by simp
next
  case (Cons kv d)
  obtain dimension metrics where kv: "kv = (dimension, metrics)" by (cases kv)
  from Cons.prems have "no_metrics (JDict d)" by simp
  then have "dimension_rows pr source_name d = Inr []" by (rule Cons.IH)
  moreover from Cons.prems
  have "(case metrics of JDict ms \<Rightarrow> metric_rows pr source_name dimension ms | _ \<Rightarrow> Inr []) = Inr []"
    by (cases metrics) (simp_all add: kv)
  ultimately show ?case by (simp add: kv)
qed

text \<open>A document that is neither a mapping nor a list has no records for any extractor.\<close>

lemma scalar_no_records:
  "\<not> isinstance_dict data \<Longrightarrow> \<not> isinstance_list data \<Longrightarrow>
   anomaly_records data = [] \<and> baseline_records data = [] \<and> segment_data data = [] \<and>
   no_metrics data"
  by (cases data) (simp_all add: anomaly_records_def baseline_records_def segment_data_def)

text \<open>What shape matching makes of a document that matches no structure: no records.\<close>

lemma first_list_key_unheld:
  "\<not> list_ex (holds_list d) keys \<Longrightarrow> first_list_key d keys = []"
  by (induction keys) (auto simp: holds_list_def split: option.splits json.splits)

lemma scan_values_unqualified:
  "\<not> list_ex qualifies (map snd d) \<Longrightarrow> scan_values d = []"
proof -
  assume "\<not> list_ex qualifies (map snd d)"
  then have "find qualifies (map snd d) = None"
    by (simp add: find_None_iff list_ex_iff)
  then show ?thesis by (simp add: scan_values_find)
qed

lemma unrecognised_anomalies_records:
  assumes "unrecognised_anomalies data"
  shows "anomaly_records data = []"
proof (cases data)
  case (JDict d)
  from assms have "\<not> list_ex (holds_list d) [''customer_anomalies'', ''behavioral_anomalies'', ''anomalies''] \<and>
      \<not> list_ex qualifies (map snd d)"
    unfolding JDict unrecognised_anomalies.simps .
  then have "first_list_key d [''customer_anomalies'', ''behavioral_anomalies'', ''anomalies''] = []"
    and "scan_values d = []"
    by (blast intro: first_list_key_unheld scan_values_unqualified)+
  then show ?thesis unfolding JDict anomaly_records_def by (simp del: first_list_key.simps)
qed (use assms in \<open>simp_all add: anomaly_records_def\<close>)

lemma unrecognised_baselines_records:
  assumes "unrecognised_baselines data"
  shows "baseline_records data = []"
proof (cases data)
  case (JDict d)
  from assms have "\<not> list_ex (holds_list d)
         [''customer_intelligence_records'', ''customer_baselines'', ''customers'',
          ''customerintelligencerecords'']"
    unfolding JDict unrecognised_baselines.simps .
  then have "first_list_key d
         [''customer_intelligence_records'', ''customer_baselines'', ''customers'',
          ''customerintelligencerecords''] = []"
    by (rule first_list_key_unheld)
  then show ?thesis unfolding JDict baseline_records_def by (simp del: first_list_key.simps)
qed (simp_all add: baseline_records_def)

lemma unrecognised_segments_records:
  assumes "unrecognised_segments data"
  shows "segment_data data = []"
proof (cases data)
  case (JDict d)
  from assms have "\<not> list_ex (holds_list d)
         [''channel_performance'', ''segment_baselines'', ''segmentbaselines'']"
    unfolding JDict unrecognised_segments.simps .
  then have "first_list_key d [''channel_performance'', ''segment_baselines'', ''segmentbaselines''] = []"
    by (rule first_list_key_unheld)
  then show ?thesis unfolding JDict segment_data_def by (simp del: first_list_key.simps)
qed (simp_all add: segment_data_def)

text \<open>
  C7. A document that matches none of the structures of its extractor (see
  \<open>unrecognised_anomalies\<close>, \<open>unrecognised_baselines\<close>, \<open>unrecognised_segments\<close>,
  \<open>no_metrics\<close>) yields no record and no error: the sequence of records is empty, and the
  extractor returns normally and appends its banner and nothing else, no \<open>INSERT\<close> line and
  no empty \<open>VALUES\<close>. The same holds when a sequence is found but no record is extracted from
  it, because none of its elements is a mapping: for a document that is itself such a
  sequence, and for whatever sequence shape matching locates.
\<close>

theorem no_records_no_insert:
  "(unrecognised_anomalies data \<longrightarrow>
      anomaly_records data = [] \<and>
      process_behavioral_anomalies pr c data =
        (if py_truthy data then append_sections [section1_banner] c else c)) \<and>
   (unrecognised_baselines data \<longrightarrow>
      baseline_records data = [] \<and>
      process_customer_baselines pr c data =
        (if py_truthy data then append_sections [section2_banner] c else c)) \<and>
   (unrecognised_segments data \<longrightarrow>
      segment_data data = [] \<and>
      process_segment_performance pr c data =
        (if py_truthy data then append_sections [section3_banner] c else c)) \<and>
   (no_metrics data \<longrightarrow>
      ml_values pr data source_name = Inr [] \<and>
      process_ml_baselines pr c data source_name =
        Inr (if py_truthy data then write_section4_header c else c)) \<and>
   (\<not> list_ex isinstance_dict xs \<longrightarrow>
      anomaly_values pr xs 0 = [] \<and>
      process_behavioral_anomalies pr c (JList xs) =
        (if xs \<noteq> [] then append_sections [section1_banner] c else c)) \<and>
   (\<not> list_ex isinstance_dict (anomaly_records data) \<longrightarrow>
      process_behavioral_anomalies pr c data =
        (if py_truthy data then append_sections [section1_banner] c else c)) \<and>
   (\<not> list_ex isinstance_dict (baseline_records data) \<longrightarrow>
      process_customer_baselines pr c data =
        (if py_truthy data then append_sections [section2_banner] c else c)) \<and>
   (\<not> list_ex isinstance_dict (segment_data data) \<longrightarrow>
      process_segment_performance pr c data =
        (if py_truthy data then append_sections [section3_banner] c else c))"
proof (intro conjI impI)
  assume "unrecognised_anomalies data"
  then show r: "anomaly_records data = []" by (rule unrecognised_anomalies_records)
  show "process_behavioral_anomalies pr c data =
        (if py_truthy data then append_sections [section1_banner] c else c)"
    using r by (simp add: process_behavioral_anomalies_def Let_def)
next
  assume "unrecognised_baselines data"
  then show r: "baseline_records data = []" by (rule unrecognised_baselines_records)
  show "process_customer_baselines pr c data =
        (if py_truthy data then append_sections [section2_banner] c else c)"
    using r by (simp add: process_customer_baselines_def Let_def)
next
  assume "unrecognised_segments data"
  then show r: "segment_data data = []" by (rule unrecognised_segments_records)
  show "process_segment_performance pr c data =
        (if py_truthy data then append_sections [section3_banner] c else c)"
    using r by (simp add: process_segment_performance_def Let_def)
next
  assume "no_metrics data"
  then show r: "ml_values pr data source_name = Inr []"
    by (cases data) (simp_all add: ml_values_def dimension_rows_no_metrics del: no_metrics.simps)
  show "process_ml_baselines pr c data source_name =
        Inr (if py_truthy data then write_section4_header c else c)"
    using r by (simp add: process_ml_baselines_def Let_def)
next
  assume a: "\<not> list_ex isinstance_dict xs"
  then show "anomaly_values pr xs 0 = []" by (rule anomaly_values_no_dict)
  show "process_behavioral_anomalies pr c (JList xs) =
        (if xs \<noteq> [] then append_sections [section1_banner] c else c)"
    using a
    by (simp add: process_behavioral_anomalies_def anomaly_records_def anomaly_values_no_dict Let_def)
next
  assume "\<not> list_ex isinstance_dict (anomaly_records data)"
  then show "process_behavioral_anomalies pr c data =
        (if py_truthy data then append_sections [section1_banner] c else c)"
    by (simp add: process_behavioral_anomalies_def anomaly_values_no_dict Let_def)
next
  assume "\<not> list_ex isinstance_dict (baseline_records data)"
  then show "process_customer_baselines pr c data =
        (if py_truthy data then append_sections [section2_banner] c else c)"
    by (simp add: process_customer_baselines_def baseline_values_no_dict Let_def)
next
  assume "\<not> list_ex isinstance_dict (segment_data data)"
  then show "process_segment_performance pr c data =
        (if py_truthy data then append_sections [section3_banner] c else c)"
    by (simp add: process_segment_performance_def segment_values_no_dict Let_def)
qed

text \<open>
  The document \<open>{"note": "none"}\<close>, which matches no structure of any extractor, and the
  sequence \<open>[1, "x"]\<close>, which holds no mapping.
\<close>

theorem no_records_no_insert_witness:
  "\<forall>pr.
     unrecognised_anomalies (JDict [(''note'', JStr ''none'')]) \<and>
     unrecognised_baselines (JDict [(''note'', JStr ''none'')]) \<and>
     unrecognised_segments (JDict [(''note'', JStr ''none'')]) \<and>
     no_metrics (JDict [(''note'', JStr ''none'')]) \<and>
     process_behavioral_anomalies pr new_converter (JDict [(''note'', JStr ''none'')]) =
       \<lparr>sql_sections = [section1_banner], section4_header_written = False\<rparr> \<and>
     process_customer_baselines pr new_converter (JDict [(''note'', JStr ''none'')]) =
       \<lparr>sql_sections = [section2_banner], section4_header_written = False\<rparr> \<and>
     process_segment_performance pr new_converter (JDict [(''note'', JStr ''none'')]) =
       \<lparr>sql_sections = [section3_banner], section4_header_written = False\<rparr> \<and>
     process_ml_baselines pr new_converter (JDict [(''note'', JStr ''none'')]) ''ml_baselines'' =
       Inr \<lparr>sql_sections = [section4_banner], section4_header_written = True\<rparr> \<and>
     process_behavioral_anomalies pr new_converter (JList [JInt 1, JStr ''x'']) =
       \<lparr>sql_sections = [section1_banner], section4_header_written = False\<rparr>"
proof
  fix pr
  show "unrecognised_anomalies (JDict [(''note'', JStr ''none'')]) \<and>
     unrecognised_baselines (JDict [(''note'', JStr ''none'')]) \<and>
     unrecognised_segments (JDict [(''note'', JStr ''none'')]) \<and>
     no_metrics (JDict [(''note'', JStr ''none'')]) \<and>
     process_behavioral_anomalies pr new_converter (JDict [(''note'', JStr ''none'')]) =
       \<lparr>sql_sections = [section1_banner], section4_header_written = False\<rparr> \<and>
     process_customer_baselines pr new_converter (JDict [(''note'', JStr ''none'')]) =
       \<lparr>sql_sections = [section2_banner], section4_header_written = False\<rparr> \<and>
     process_segment_performance pr new_converter (JDict [(''note'', JStr ''none'')]) =
       \<lparr>sql_sections = [section3_banner], section4_header_written = False\<rparr> \<and>
     process_ml_baselines pr new_converter (JDict [(''note'', JStr ''none'')]) ''ml_baselines'' =
       Inr \<lparr>sql_sections = [section4_banner], section4_header_written = True\<rparr> \<and>
     process_behavioral_anomalies pr new_converter (JList [JInt 1, JStr ''x'']) =
       \<lparr>sql_sections = [section1_banner], section4_header_written = False\<rparr>"
    using no_records_no_insert [where data = "JDict [(''note'', JStr ''none'')]" and pr = pr
        and c = new_converter and source_name = "''ml_baselines''" and xs = "[JInt 1, JStr ''x'']"]
    by (simp add: holds_list_def append_sections_def write_section4_header_def new_converter_def)
qed

section \<open>The result of \<open>convert_all\<close>\<close>

text \<open>When \<open>convert_all\<close> returns, it returns \<open>False\<close> exactly for no input file or a failed
  write.\<close>

lemma convert_all_returned:
  "convert_all env c = Inr (ok, out) \<Longrightarrow> ok = (detect_json_files env \<noteq> [] \<and> writable env)"
  by (auto simp: convert_all_cases split: if_splits sum.splits)

lemma convert_all_no_files:
  "detect_json_files env = [] \<Longrightarrow> convert_all env c = Inr (False, None)"
  by (simp add: convert_all_cases)

text \<open>
  C8. The claim: \<open>convert_all\<close> returns failure exactly when no catalogued file is present or
  the write fails, and success in every other run. In a run with a file present and the
  output writable the claim promises success; with
  \<open>{"widgets": {"return_rate": {"baseline": "n/a"}}}\<close> in \<open>product_anomaly_metrics.json\<close>
  the code returns nothing: the \<open>TypeError\<close> of the extractor leaves \<open>convert_all\<close>.
\<close>

theorem convert_all_neither_result:
  "detect_json_files
     \<lparr>file_at = (\<lambda>f. if f = ''product_anomaly_metrics.json''
                     then Parsed (JDict [(''widgets'', JDict [(''return_rate'', JDict [(''baseline'', JStr ''n/a'')])])])
                     else Missing),
      printable = pr, writable = True, header_text = h, footer_text = t\<rparr> \<noteq> [] \<and>
   convert_all
     \<lparr>file_at = (\<lambda>f. if f = ''product_anomaly_metrics.json''
                     then Parsed (JDict [(''widgets'', JDict [(''return_rate'', JDict [(''baseline'', JStr ''n/a'')])])])
                     else Missing),
      printable = pr, writable = True, header_text = h, footer_text = t\<rparr> c = Inl TypeError"
  by (simp add: convert_all_def detect_json_files_def file_patterns_def load_json_safe_def
      processors_def process_ml_baselines_def ml_values_def ml_row_def metric_numbers_def
      get_or_def scaled_or_zero_def)

section \<open>The section banners\<close>

lemma anomalies_extends:
  "\<exists>ys. sql_sections (process_behavioral_anomalies pr c data) = sql_sections c @ ys"
  by (simp add: process_behavioral_anomalies_def append_sections_def Let_def)

lemma baselines_extends:
  "\<exists>ys. sql_sections (process_customer_baselines pr c data) = sql_sections c @ ys"
  by (simp add: process_customer_baselines_def append_sections_def Let_def)

lemma segment_extends:
  "\<exists>ys. sql_sections (process_segment_performance pr c data) = sql_sections c @ ys"
  by (simp add: process_segment_performance_def append_sections_def Let_def)

lemma ml_extends:
  "process_ml_baselines pr c data source_name = Inr c' \<Longrightarrow>
   \<exists>ys. sql_sections c' = sql_sections c @ ys"
  by (auto simp: process_ml_baselines_def write_section4_header_def append_sections_def Let_def
      split: if_splits sum.splits)

lemma processor_extends:
  assumes "map_of (processors (printable env)) file_type = Some processor" and "processor c data = Inr c'"
  shows "\<exists>ys. sql_sections c' = sql_sections c @ ys"
  using assms anomalies_extends [of "printable env" c data] baselines_extends [of "printable env" c data]
    segment_extends [of "printable env" c data]
  by (auto simp: processors_def split: if_splits dest: ml_extends)

lemma process_files_extends:
  "process_files env files c = Inr c' \<Longrightarrow> \<exists>ys. sql_sections c' = sql_sections c @ ys"
proof (induction files arbitrary: c)
  case Nil
  then show ?case by simp
next
  case (Cons entry files)
  obtain file_type filepath where entry: "entry = (file_type, filepath)" by (cases entry)
  show ?case
  proof (cases "if py_truthy (load_json_safe env filepath) then map_of (processors (printable env)) file_type else None")
    case None
    with Cons show ?thesis by (simp add: entry)
  next
    case (Some processor)
    with Cons.prems obtain c1 where c1: "processor c (load_json_safe env filepath) = Inr c1"
      and rest: "process_files env files c1 = Inr c'"
      by (auto simp: entry split: sum.splits)
    from Some have "map_of (processors (printable env)) file_type = Some processor" by (simp split: if_splits)
    from processor_extends [OF this c1] obtain ys where "sql_sections c1 = sql_sections c @ ys" by blast
    moreover from Cons.IH [OF rest] obtain zs where "sql_sections c' = sql_sections c1 @ zs" by blast
    ultimately show ?thesis by simp
  qed
qed

text \<open>A file that is dispatched leaves in the final sections whatever its processor is sure to append.\<close>

lemma process_files_keeps:
  assumes "process_files env files c = Inr c'"
    and "(file_type, filepath) \<in> set files"
    and "map_of (processors (printable env)) file_type = Some processor"
    and "py_truthy (load_json_safe env filepath)"
    and "\<And>c0 c1. processor c0 (load_json_safe env filepath) = Inr c1 \<Longrightarrow> banner \<in> set (sql_sections c1)"
  shows "banner \<in> set (sql_sections c')"
  using assms(1,2)
proof (induction files arbitrary: c)
  case Nil
  then show ?case by simp
next
  case (Cons entry files)
  obtain ft fp where entry: "entry = (ft, fp)" by (cases entry)
  show ?case
  proof (cases "entry = (file_type, filepath)")
    case True
    with Cons.prems assms(3,4) obtain c1 where c1: "processor c (load_json_safe env filepath) = Inr c1"
      and rest: "process_files env files c1 = Inr c'"
      by (auto split: sum.splits)
    from assms(5) [OF c1] have "banner \<in> set (sql_sections c1)" .
    moreover from process_files_extends [OF rest] obtain zs where "sql_sections c' = sql_sections c1 @ zs"
      by blast
    ultimately show ?thesis by simp
  next
    case False
    with Cons.prems have mem: "(file_type, filepath) \<in> set files" by simp
    from Cons.prems(1) obtain c1 where "process_files env files c1 = Inr c'"
      by (auto simp: entry Let_def split: option.splits sum.splits if_splits)
    from Cons.IH [OF this mem] show ?thesis .
  qed
qed

lemma document_keeps:
  assumes "convert_all env c = Inr (ok, Some doc)"
    and "(file_type, filename) \<in> set file_patterns"
    and "file_at env filename = Parsed data"
    and "py_truthy data"
    and "map_of (processors (printable env)) file_type = Some processor"
    and "\<And>c0 c1. processor c0 data = Inr c1 \<Longrightarrow> banner \<in> set (sql_sections c1)"
  shows "\<exists>before after. doc = join nl (before @ banner # after)"
proof -
  from assms(1) obtain c' where run: "process_files env (detect_json_files env) c = Inr c'"
    and doc: "doc = join nl ([header_text env] @ sql_sections c' @ [footer_text env])"
    by (auto simp: convert_all_cases split: if_splits sum.splits)
  have "(file_type, filename) \<in> set (detect_json_files env)"
    using assms(2,3) by (simp add: detect_json_files_def)
  moreover have "load_json_safe env filename = data"
    using assms(3) by (simp add: load_json_safe_def)
  ultimately have "banner \<in> set (sql_sections c')"
    using process_files_keeps [OF run _ assms(5), of filename banner] assms(4,6) by simp
  then obtain xs ys where "sql_sections c' = xs @ banner # ys"
    by (auto simp: in_set_conv_decomp)
  then have "doc = join nl (([header_text env] @ xs) @ banner # (ys @ [footer_text env]))"
    by (simp add: doc)
  then show ?thesis by blast
qed

lemma anomalies_banner:
  "py_truthy data \<Longrightarrow>
   \<exists>rest. sql_sections (process_behavioral_anomalies pr c data) = sql_sections c @ section1_banner # rest"
  by (simp add: process_behavioral_anomalies_def append_sections_def Let_def)

lemma baselines_banner:
  "py_truthy data \<Longrightarrow>
   \<exists>rest. sql_sections (process_customer_baselines pr c data) = sql_sections c @ section2_banner # rest"
  by (simp add: process_customer_baselines_def append_sections_def Let_def)

lemma segment_banner:
  "py_truthy data \<Longrightarrow>
   \<exists>rest. sql_sections (process_segment_performance pr c data) = sql_sections c @ section3_banner # rest"
  by (simp add: process_segment_performance_def append_sections_def Let_def)

text \<open>
  C9. For a document that Python counts as true, each of the three list-based extractors
  appends its banner right after what \<open>sql_sections\<close> held before, whatever shape matching
  finds afterwards; when no record is extracted the banner is all that is appended. The
  sections only grow afterwards, so the banner is one of the blocks of every output document
  that \<open>convert_all\<close> writes for an environment holding that document.
\<close>

theorem banner_always_appended:
  "py_truthy data \<longrightarrow>
     (\<exists>rest. sql_sections (process_behavioral_anomalies pr c data) =
        sql_sections c @ section1_banner # rest) \<and>
     (\<exists>rest. sql_sections (process_customer_baselines pr c data) =
        sql_sections c @ section2_banner # rest) \<and>
     (\<exists>rest. sql_sections (process_segment_performance pr c data) =
        sql_sections c @ section3_banner # rest) \<and>
     (\<not> list_ex isinstance_dict (anomaly_records data) \<longrightarrow>
        sql_sections (process_behavioral_anomalies pr c data) = sql_sections c @ [section1_banner]) \<and>
     (\<not> list_ex isinstance_dict (baseline_records data) \<longrightarrow>
        sql_sections (process_customer_baselines pr c data) = sql_sections c @ [section2_banner]) \<and>
     (\<not> list_ex isinstance_dict (segment_data data) \<longrightarrow>
        sql_sections (process_segment_performance pr c data) = sql_sections c @ [section3_banner]) \<and>
     (convert_all env c = Inr (ok, Some doc) \<and>
      file_at env ''behavioral_anomalies.json'' = Parsed data \<longrightarrow>
        (\<exists>before after. doc = join nl (before @ section1_banner # after))) \<and>
     (convert_all env c = Inr (ok, Some doc) \<and>
      file_at env ''customer_baseline_comprehensive.json'' = Parsed data \<longrightarrow>
        (\<exists>before after. doc = join nl (before @ section2_banner # after))) \<and>
     (convert_all env c = Inr (ok, Some doc) \<and>
      file_at env ''customer_segment_baselines.json'' = Parsed data \<longrightarrow>
        (\<exists>before after. doc = join nl (before @ section3_banner # after)))"
proof (intro conjI impI)
  assume t: "py_truthy data"
  show "\<exists>rest. sql_sections (process_behavioral_anomalies pr c data) =
        sql_sections c @ section1_banner # rest"
    using t by (rule anomalies_banner)
  show "\<exists>rest. sql_sections (process_customer_baselines pr c data) =
        sql_sections c @ section2_banner # rest"
    using t by (rule baselines_banner)
  show "\<exists>rest. sql_sections (process_segment_performance pr c data) =
        sql_sections c @ section3_banner # rest"
    using t by (rule segment_banner)
  show "sql_sections (process_behavioral_anomalies pr c data) = sql_sections c @ [section1_banner]"
    if "\<not> list_ex isinstance_dict (anomaly_records data)"
    using t that
    by (simp add: process_behavioral_anomalies_def anomaly_values_no_dict append_sections_def Let_def)
  show "sql_sections (process_customer_baselines pr c data) = sql_sections c @ [section2_banner]"
    if "\<not> list_ex isinstance_dict (baseline_records data)"
    using t that
    by (simp add: process_customer_baselines_def baseline_values_no_dict append_sections_def Let_def)
  show "sql_sections (process_segment_performance pr c data) = sql_sections c @ [section3_banner]"
    if "\<not> list_ex isinstance_dict (segment_data data)"
    using t that
    by (simp add: process_segment_performance_def segment_values_no_dict append_sections_def Let_def)
  show "\<exists>before after. doc = join nl (before @ section1_banner # after)"
    if a: "convert_all env c = Inr (ok, Some doc) \<and>
      file_at env ''behavioral_anomalies.json'' = Parsed data"
  proof (rule document_keeps [of env c ok doc "''behavioral_anomalies''" "''behavioral_anomalies.json''" data])
    show "map_of (processors (printable env)) ''behavioral_anomalies'' =
      Some (\<lambda>c data. Inr (process_behavioral_anomalies (printable env) c data))"
      by (simp add: processors_def)
    show "section1_banner \<in> set (sql_sections c1)"
      if "Inr (process_behavioral_anomalies (printable env) c0 data) = Inr c1" for c0 c1 :: converter
      using that anomalies_banner [OF t, where pr = "printable env" and c = c0] by auto
  qed (use a t in \<open>simp_all add: file_patterns_def\<close>)
  show "\<exists>before after. doc = join nl (before @ section2_banner # after)"
    if a: "convert_all env c = Inr (ok, Some doc) \<and>
      file_at env ''customer_baseline_comprehensive.json'' = Parsed data"
  proof (rule document_keeps [of env c ok doc "''customer_comprehensive''"
        "''customer_baseline_comprehensive.json''" data])
    show "map_of (processors (printable env)) ''customer_comprehensive'' =
      Some (\<lambda>c data. Inr (process_customer_baselines (printable env) c data))"
      by (simp add: processors_def)
    show "section2_banner \<in> set (sql_sections c1)"
      if "Inr (process_customer_baselines (printable env) c0 data) = Inr c1" for c0 c1 :: converter
      using that baselines_banner [OF t, where pr = "printable env" and c = c0] by auto
  qed (use a t in \<open>simp_all add: file_patterns_def\<close>)
  show "\<exists>before after. doc = join nl (before @ section3_banner # after)"
    if a: "convert_all env c = Inr (ok, Some doc) \<and>
      file_at env ''customer_segment_baselines.json'' = Parsed data"
  proof (rule document_keeps [of env c ok doc "''customer_segments''"
        "''customer_segment_baselines.json''" data])
    show "map_of (processors (printable env)) ''customer_segments'' =
      Some (\<lambda>c data. Inr (process_segment_performance (printable env) c data))"
      by (simp add: processors_def)
    show "section3_banner \<in> set (sql_sections c1)"
      if "Inr (process_segment_performance (printable env) c0 data) = Inr c1" for c0 c1 :: converter
      using that segment_banner [OF t, where pr = "printable env" and c = c0] by auto
  qed (use a t in \<open>simp_all add: file_patterns_def\<close>)
qed

text \<open>
  The document \<open>{"unexpected": 1}\<close>, after a banner of an earlier section, and alone in
  \<open>behavioral_anomalies.json\<close>.
\<close>

theorem banner_always_appended_witness:
  "\<forall>pr.
   py_truthy (JDict [(''unexpected'', JInt 1)]) \<and>
   sql_sections (process_behavioral_anomalies pr
     \<lparr>sql_sections = [section2_banner], section4_header_written = False\<rparr>
     (JDict [(''unexpected'', JInt 1)])) = [section2_banner, section1_banner] \<and>
   sql_sections (process_customer_baselines pr
     \<lparr>sql_sections = [section2_banner], section4_header_written = False\<rparr>
     (JDict [(''unexpected'', JInt 1)])) = [section2_banner, section2_banner] \<and>
   sql_sections (process_segment_performance pr
     \<lparr>sql_sections = [section2_banner], section4_header_written = False\<rparr>
     (JDict [(''unexpected'', JInt 1)])) = [section2_banner, section3_banner] \<and>
   convert_all
     \<lparr>file_at = (\<lambda>f. if f = ''behavioral_anomalies.json''
                     then Parsed (JDict [(''unexpected'', JInt 1)]) else Missing),
      printable = pr, writable = True, header_text = ''-- header'', footer_text = ''-- footer''\<rparr>
     new_converter =
     Inr (True, Some (join nl [''-- header'', section1_banner, ''-- footer'']))"
proof
  fix pr
  show "py_truthy (JDict [(''unexpected'', JInt 1)]) \<and>
   sql_sections (process_behavioral_anomalies pr
     \<lparr>sql_sections = [section2_banner], section4_header_written = False\<rparr>
     (JDict [(''unexpected'', JInt 1)])) = [section2_banner, section1_banner] \<and>
   sql_sections (process_customer_baselines pr
     \<lparr>sql_sections = [section2_banner], section4_header_written = False\<rparr>
     (JDict [(''unexpected'', JInt 1)])) = [section2_banner, section2_banner] \<and>
   sql_sections (process_segment_performance pr
     \<lparr>sql_sections = [section2_banner], section4_header_written = False\<rparr>
     (JDict [(''unexpected'', JInt 1)])) = [section2_banner, section3_banner] \<and>
   convert_all
     \<lparr>file_at = (\<lambda>f. if f = ''behavioral_anomalies.json''
                     then Parsed (JDict [(''unexpected'', JInt 1)]) else Missing),
      printable = pr, writable = True, header_text = ''-- header'', footer_text = ''-- footer''\<rparr>
     new_converter =
     Inr (True, Some (join nl [''-- header'', section1_banner, ''-- footer'']))"
    using banner_always_appended [where data = "JDict [(''unexpected'', JInt 1)]" and pr = pr
        and c = "\<lparr>sql_sections = [section2_banner], section4_header_written = False\<rparr>"]
    by (simp add: anomaly_records_def baseline_records_def segment_data_def
        convert_all_def detect_json_files_def file_patterns_def load_json_safe_def processors_def
        process_behavioral_anomalies_def append_sections_def new_converter_def Let_def)
qed

section \<open>Parsed values that count as false\<close>

text \<open>Replacing a file whose value counts as false by an unreadable one changes nothing.\<close>

lemma falsy_as_unreadable:
  assumes "file_at env path = Parsed v" and "\<not> py_truthy v"
  shows "convert_all (env\<lparr>file_at := (file_at env)(path := Unreadable)\<rparr>) c = convert_all env c"
proof -
  define env' where "env' = env\<lparr>file_at := (file_at env)(path := Unreadable)\<rparr>"
  have truthy: "py_truthy (load_json_safe env' p) = py_truthy (load_json_safe env p)" for p
    using assms by (simp add: env'_def load_json_safe_def)
  have same: "load_json_safe env' p = load_json_safe env p" if "py_truthy (load_json_safe env p)" for p
    using assms that by (auto simp: env'_def load_json_safe_def)
  have table: "printable env' = printable env"
    by (simp add: env'_def)
  have files: "process_files env' files c = process_files env files c" for files c
  proof (induction files arbitrary: c)
    case Nil
    show ?case by simp
  next
    case (Cons entry files)
    obtain file_type filepath where entry: "entry = (file_type, filepath)" by (cases entry)
    show ?case
    proof (cases "py_truthy (load_json_safe env filepath)")
      case True
      then show ?thesis
        by (simp add: entry same [OF True] table Cons.IH split: option.splits sum.splits)
    next
      case False
      then show ?thesis by (simp add: entry truthy Cons.IH)
    qed
  qed
  have "detect_json_files env' = detect_json_files env"
    unfolding detect_json_files_def env'_def
    by (rule filter_cong) (use assms in auto)
  moreover have "writable env' = writable env" "header_text env' = header_text env"
    "footer_text env' = footer_text env"
    by (simp_all add: env'_def)
  ultimately have "convert_all env' c = convert_all env c"
    by (simp add: convert_all_cases files split: sum.splits)
  then show ?thesis by (simp only: env'_def)
qed

text \<open>
  C10. A file whose parsed value Python counts as false is not dispatched: the loop goes on
  to the next file with the converter as it was (no banner, no row), and the whole run is
  the run in which that file could not be loaded. The empty mapping, the empty list, \<open>0\<close>,
  \<open>false\<close>, \<open>null\<close> and the empty string are such values.
\<close>

theorem falsy_document_skipped:
  "(file_at env path = Parsed v \<and> \<not> py_truthy v \<longrightarrow>
      process_files env ((file_type, path) # files) c = process_files env files c \<and>
      convert_all env c = convert_all (env\<lparr>file_at := (file_at env)(path := Unreadable)\<rparr>) c) \<and>
   \<not> py_truthy (JDict []) \<and> \<not> py_truthy (JList []) \<and> \<not> py_truthy (JInt 0) \<and>
   \<not> py_truthy (JBool False) \<and> \<not> py_truthy JNull \<and> \<not> py_truthy (JStr [])"
proof (intro conjI impI)
  assume a: "file_at env path = Parsed v \<and> \<not> py_truthy v"
  then show "process_files env ((file_type, path) # files) c = process_files env files c"
    by (simp add: load_json_safe_def)
  from a have p: "file_at env path = Parsed v" and f: "\<not> py_truthy v" by simp_all
  show "convert_all env c = convert_all (env\<lparr>file_at := (file_at env)(path := Unreadable)\<rparr>) c"
    by (rule falsy_as_unreadable [OF p f, symmetric])
qed simp_all

text \<open>
  An empty mapping in \<open>behavioral_anomalies.json\<close>, followed by a segment file with one
  record: only the segment section is written.
\<close>

theorem falsy_document_skipped_witness:
  "\<forall>pr.
   convert_all
     \<lparr>file_at = (\<lambda>f. if f = ''behavioral_anomalies.json'' then Parsed (JDict [])
                     else if f = ''customer_segment_baselines.json''
                     then Parsed (JDict [(''segment_baselines'', JList [JDict [(''segment'', JStr ''Premium'')]])])
                     else Missing),
      printable = pr, writable = True, header_text = ''-- header'', footer_text = ''-- footer''\<rparr> new_converter =
   convert_all
     \<lparr>file_at = (\<lambda>f. if f = ''behavioral_anomalies.json'' then Unreadable
                     else if f = ''customer_segment_baselines.json''
                     then Parsed (JDict [(''segment_baselines'', JList [JDict [(''segment'', JStr ''Premium'')]])])
                     else Missing),
      printable = pr, writable = True, header_text = ''-- header'', footer_text = ''-- footer''\<rparr> new_converter"
proof
  fix pr
  show "convert_all
     \<lparr>file_at = (\<lambda>f. if f = ''behavioral_anomalies.json'' then Parsed (JDict [])
                     else if f = ''customer_segment_baselines.json''
                     then Parsed (JDict [(''segment_baselines'', JList [JDict [(''segment'', JStr ''Premium'')]])])
                     else Missing),
      printable = pr, writable = True, header_text = ''-- header'', footer_text = ''-- footer''\<rparr> new_converter =
   convert_all
     \<lparr>file_at = (\<lambda>f. if f = ''behavioral_anomalies.json'' then Unreadable
                     else if f = ''customer_segment_baselines.json''
                     then Parsed (JDict [(''segment_baselines'', JList [JDict [(''segment'', JStr ''Premium'')]])])
                     else Missing),
      printable = pr, writable = True, header_text = ''-- header'', footer_text = ''-- footer''\<rparr> new_converter"
    using falsy_document_skipped [of
      "\<lparr>file_at = (\<lambda>f. if f = ''behavioral_anomalies.json'' then Parsed (JDict [])
                     else if f = ''customer_segment_baselines.json''
                     then Parsed (JDict [(''segment_baselines'', JList [JDict [(''segment'', JStr ''Premium'')]])])
                     else Missing),
      printable = pr, writable = True, header_text = ''-- header'', footer_text = ''-- footer''\<rparr>"
      "''behavioral_anomalies.json''" "JDict []" "''behavioral_anomalies''" "[]" new_converter]
    by (simp add: fun_upd_def cong: if_cong)
qed

end
